theory Spec2Isabelle
  imports Complex_Main "HOL-Library.Sublist"
begin

section \<open>Tabular data\<close>

text \<open>
  A pandas DataFrame is modelled row-wise. A cell is a missing value (\<open>None\<close>, \<open>NaN\<close>,
  \<open>NaT\<close>, \<open>pd.NA\<close>: everything \<open>isna\<close> answers True for), a string, a number or a
  timestamp. A float64 or integer value is modelled by the real number it denotes: rounding
  and infinities of the float arithmetic are not part of the model. A timestamp parsed with
  the format \<open>%Y-%m-%d\<close> lies at midnight and is modelled by its calendar date.

  A frame lists its columns with their dtypes and its rows; a row is a function from column
  names to cells, and only the cells of listed columns are ever read. Row labels (the index)
  play no part in the functions below and are left out, as are the log messages. Booleans
  and nested JSON values are not cells of the model, and column names are taken to be unique.
\<close>

datatype date = Date (dt_year: int) (dt_month: int) (dt_day: int)

datatype cell = NA | Str string | Num real | Dt date

datatype dtype =
    ObjectT         \<comment> \<open>object: any mix of cells\<close>
  | NumericT        \<comment> \<open>numpy float64 or int64; a missing value is NaN\<close>
  | NullableIntT    \<comment> \<open>the extension dtype Int64; a missing value is pd.NA\<close>
  | DatetimeT       \<comment> \<open>datetime64; a missing value is NaT\<close>

datatype error =
    KeyError string          \<comment> \<open>a column that is not there\<close>
  | TypeError                \<comment> \<open>an operation on values of the wrong type\<close>
  | AttributeError           \<comment> \<open>the \<open>.dt\<close> accessor or \<open>.date()\<close> on a value that is no timestamp\<close>
  | ParseError               \<comment> \<open>the ValueError of \<open>pd.to_datetime\<close>\<close>
  | IntValueError            \<comment> \<open>the ValueError of \<open>int(val)\<close>\<close>
  | UnknownStrategy string   \<comment> \<open>\<open>ValueError(f"Unknown strategy: {strategy}")\<close>\<close>
  | StorageError             \<comment> \<open>any \<open>psycopg2.Error\<close>\<close>
  | OutsideModel             \<comment> \<open>no Python exception: pandas behaviour the model does not cover\<close>

type_synonym row = "string \<Rightarrow> cell"

record dataframe =
  columns :: "(string \<times> dtype) list"
  rows :: "row list"

definition bind_err :: "error + 'a \<Rightarrow> ('a \<Rightarrow> error + 'b) \<Rightarrow> error + 'b" where
  "bind_err m f = (case m of Inl e \<Rightarrow> Inl e | Inr x \<Rightarrow> f x)"

definition colnames :: "dataframe \<Rightarrow> string list" where
  "colnames df = map fst (columns df)"

definition has_col :: "dataframe \<Rightarrow> string \<Rightarrow> bool" where
  "has_col df c = (c \<in> set (colnames df))"

definition dtype_of :: "dataframe \<Rightarrow> string \<Rightarrow> dtype option" where
  "dtype_of df c = map_of (columns df) c"

text \<open>\<open>df[c] = ...\<close>: an existing column keeps its place, a new one goes last.\<close>

definition set_dtype :: "string \<Rightarrow> dtype \<Rightarrow> (string \<times> dtype) list \<Rightarrow> (string \<times> dtype) list" where
  "set_dtype c t cs =
     (if c \<in> set (map fst cs) then map (\<lambda>(n, u). if n = c then (n, t) else (n, u)) cs
      else cs @ [(c, t)])"

definition assign_col :: "string \<Rightarrow> dtype \<Rightarrow> (row \<Rightarrow> cell) \<Rightarrow> dataframe \<Rightarrow> dataframe" where
  "assign_col c t f df =
     df\<lparr>columns := set_dtype c t (columns df), rows := map (\<lambda>r. r(c := f r)) (rows df)\<rparr>"

section \<open>Calendar\<close>

text \<open>
  \<open>.dt.month\<close> is the month component; \<open>.dt.day_name()\<close> is the English name of the
  weekday of the proleptic Gregorian calendar, computed here from the day number
  (1970-01-01, day 0, is a Thursday).
\<close>

definition days_from_civil :: "date \<Rightarrow> int" where
  "days_from_civil d =
     (let y = (if dt_month d \<le> 2 then dt_year d - 1 else dt_year d);
          era = y div 400;
          yoe = y - era * 400;
          mp = (if dt_month d > 2 then dt_month d - 3 else dt_month d + 9);
          doy = (153 * mp + 2) div 5 + dt_day d - 1;
          doe = yoe * 365 + yoe div 4 - yoe div 100 + doy
      in era * 146097 + doe - 719468)"

definition weekday :: "date \<Rightarrow> nat" where
  "weekday d = nat ((days_from_civil d + 3) mod 7)"

definition day_names :: "string list" where
  "day_names = [''Monday'', ''Tuesday'', ''Wednesday'', ''Thursday'', ''Friday'',
                ''Saturday'', ''Sunday'']"

definition day_name :: "date \<Rightarrow> string" where
  "day_name d = day_names ! weekday d"

section \<open>transform.py\<close>

subsection \<open>Comparing a column with a number\<close>

text \<open>
  \<open>df[c] < k\<close> raises KeyError for a column that is not there and TypeError for a
  datetime column or for a string or timestamp among the values of an object column.
  On a float or object column it compares value by value, and a missing value compares
  False. On a nullable integer column the result is a nullable boolean: the comparison of a
  missing value is itself missing (None below).
\<close>

definition comparable :: "dataframe \<Rightarrow> string \<Rightarrow> error + unit" where
  "comparable df c =
     (case dtype_of df c of
        None \<Rightarrow> Inl (KeyError c)
      | Some DatetimeT \<Rightarrow> Inl TypeError
      | Some NullableIntT \<Rightarrow> Inr ()
      | Some NumericT \<Rightarrow> Inr ()
      | Some ObjectT \<Rightarrow>
          (if \<exists>r \<in> set (rows df). case r c of Str s \<Rightarrow> True | Dt d \<Rightarrow> True | _ \<Rightarrow> False
           then Inl TypeError else Inr ()))"

definition compare_col :: "dataframe \<Rightarrow> string \<Rightarrow> (real \<Rightarrow> bool) \<Rightarrow> row \<Rightarrow> bool option" where
  "compare_col df c p r =
     (case r c of
        Num x \<Rightarrow> Some (p x)
      | NA \<Rightarrow> if dtype_of df c = Some NullableIntT then None else Some False
      | _ \<Rightarrow> Some False)"

text \<open>
  Masks are joined by \<open>|\<close>, which on nullable booleans is the three-valued or: missing or
  True is True, missing or False is missing. \<open>df[mask]\<close> takes the rows where the mask is
  True and \<open>df[~mask]\<close> the rows where it is False: a row whose mask is missing is in
  neither.
\<close>

definition or3 :: "bool option \<Rightarrow> bool option \<Rightarrow> bool option" where
  "or3 a b =
     (if a = Some True \<or> b = Some True then Some True
      else if a = None \<or> b = None then None
      else Some False)"

subsection \<open>validate_temperature\<close>

definition temperature_mask :: "dataframe \<Rightarrow> row \<Rightarrow> bool option" where
  "temperature_mask df r =
     or3 (or3 (or3 (compare_col df ''temperature_2m_max'' (\<lambda>x. x < - 60) r)
                   (compare_col df ''temperature_2m_max'' (\<lambda>x. x > 60) r))
              (compare_col df ''temperature_2m_min'' (\<lambda>x. x < - 60) r))
         (compare_col df ''temperature_2m_min'' (\<lambda>x. x > 60) r)"

text \<open>
  The warning written for each rejected row formats \<open>row['city']\<close> and \<open>row['time']\<close>:
  with a rejected row and one of these columns not there it raises KeyError.
\<close>

definition validate_temperature :: "dataframe \<Rightarrow> error + dataframe" where
  "validate_temperature df =
     bind_err (comparable df ''temperature_2m_max'') (\<lambda>_.
     bind_err (comparable df ''temperature_2m_min'') (\<lambda>_.
       let rejected = filter (\<lambda>r. temperature_mask df r = Some True) (rows df) in
       if rejected \<noteq> [] \<and> \<not> has_col df ''city'' then Inl (KeyError ''city'')
       else if rejected \<noteq> [] \<and> \<not> has_col df ''time'' then Inl (KeyError ''time'')
       else Inr (df\<lparr>rows := filter (\<lambda>r. temperature_mask df r = Some False) (rows df)\<rparr>)))"

subsection \<open>validate_precipitation\<close>

definition precip_cols :: "string list" where
  "precip_cols = [''precipitation_sum'', ''rain_sum'', ''snowfall_sum'']"

definition existing_cols :: "dataframe \<Rightarrow> string list" where
  "existing_cols df = filter (has_col df) precip_cols"

fun comparable_all :: "dataframe \<Rightarrow> string list \<Rightarrow> error + unit" where
  "comparable_all df [] = Inr ()"
| "comparable_all df (c # cs) = bind_err (comparable df c) (\<lambda>_. comparable_all df cs)"

text \<open>The mask starts all False and takes \<open>df[col] < 0\<close> of one column after the other.\<close>

definition precipitation_mask :: "dataframe \<Rightarrow> row \<Rightarrow> bool option" where
  "precipitation_mask df r =
     fold (\<lambda>c mask. or3 mask (compare_col df c (\<lambda>x. x < 0) r)) (existing_cols df) (Some False)"

definition validate_precipitation :: "dataframe \<Rightarrow> error + dataframe" where
  "validate_precipitation df =
     bind_err (comparable_all df (existing_cols df)) (\<lambda>_.
       Inr (df\<lparr>rows := filter (\<lambda>r. precipitation_mask df r = Some False) (rows df)\<rparr>))"

subsection \<open>cast_types\<close>

text \<open>
  \<open>pd.to_datetime(format="%Y-%m-%d")\<close> on one string. The empty string and the strings
  for NaT and NaN are read as a missing date. A string of digits and of the signs
  \<open>- / . :\<close> is read as a date when it is a year of four digits, a month and a day of one
  or two digits, separated by \<open>-\<close>, nothing before and nothing after, and the three numbers
  a date of the calendar: \<open>2024-1-5\<close> is read like \<open>2024-01-05\<close>. Every other string of
  these characters raises the ValueError.
\<close>

definition digit_of :: "char \<Rightarrow> int option" where
  "digit_of ch = (let n = int (of_char ch) - 48 in if 0 \<le> n \<and> n \<le> 9 then Some n else None)"

fun digits_from :: "int \<Rightarrow> string \<Rightarrow> int option" where
  "digits_from acc [] = Some acc"
| "digits_from acc (ch # s) =
     (case digit_of ch of None \<Rightarrow> None | Some n \<Rightarrow> digits_from (10 * acc + n) s)"

definition number_of :: "string \<Rightarrow> int option" where
  "number_of s = (if s = [] then None else digits_from 0 s)"

fun split_on :: "char \<Rightarrow> string \<Rightarrow> string list" where
  "split_on sep [] = [[]]"
| "split_on sep (ch # s) =
     (if ch = sep then [] # split_on sep s
      else (case split_on sep s of [] \<Rightarrow> [[ch]] | w # ws \<Rightarrow> (ch # w) # ws))"

definition leap_year :: "int \<Rightarrow> bool" where
  "leap_year y = (y mod 4 = 0 \<and> (y mod 100 \<noteq> 0 \<or> y mod 400 = 0))"

definition days_in_month :: "int \<Rightarrow> int \<Rightarrow> int" where
  "days_in_month y m =
     (if m = 2 then (if leap_year y then 29 else 28)
      else if m = 4 \<or> m = 6 \<or> m = 9 \<or> m = 11 then 30 else 31)"

definition ymd_of :: "string \<Rightarrow> date option" where
  "ymd_of s =
     (case split_on CHR ''-'' s of
        [ys, ms, ds] \<Rightarrow>
          if length ys = 4 \<and> 1 \<le> length ms \<and> length ms \<le> 2 \<and> 1 \<le> length ds \<and> length ds \<le> 2
          then (case (number_of ys, number_of ms, number_of ds) of
                  (Some y, Some m, Some d) \<Rightarrow>
                    if 1 \<le> m \<and> m \<le> 12 \<and> 1 \<le> d \<and> d \<le> days_in_month y m
                    then Some (Date y m d) else None
                | _ \<Rightarrow> None)
          else None
      | _ \<Rightarrow> None)"

definition plain :: "string \<Rightarrow> bool" where
  "plain s = (\<forall>ch \<in> set s. digit_of ch \<noteq> None \<or> ch \<in> set ''-/.:'')"

definition nat_strings :: "string list" where
  "nat_strings = [[], ''NaT'', ''nat'', ''NAT'', ''nan'', ''NaN'', ''NAN'']"

text \<open>
  A timestamp counts nanoseconds in 64 bits: midnight of a date is one from 1677-09-22 to
  2262-04-11, day -106751 to day 106751.
\<close>

definition in_ns_range :: "date \<Rightarrow> bool" where
  "in_ns_range d = (- 106751 \<le> days_from_civil d \<and> days_from_civil d \<le> 106751)"

text \<open>
  What pandas does beyond that is a parameter of the model: \<open>strptime\<close> stands for
  \<open>pd.to_datetime\<close> on a number in the column, on a date outside the nanosecond range
  (an error or a coarser unit, by the version of pandas) and on a string with another
  character in it (\<open>now\<close> and \<open>today\<close> are read from the clock), \<open>parse_numeric\<close> for
  \<open>pd.to_numeric(errors="coerce")\<close> on a string (None: not a number, coerced to NaN),
  \<open>int_of_str\<close> for Python's \<open>int\<close> on a string.
\<close>

datatype dt_result = DtOk date | DtNaT | DtFail

record parsers =
  strptime :: "cell \<Rightarrow> dt_result"
  parse_numeric :: "string \<Rightarrow> real option"
  int_of_str :: "string \<Rightarrow> int option"

definition library_date :: "parsers \<Rightarrow> cell \<Rightarrow> error + cell" where
  "library_date P c =
     (case strptime P c of DtOk d \<Rightarrow> Inr (Dt d) | DtNaT \<Rightarrow> Inr NA | DtFail \<Rightarrow> Inl ParseError)"

definition to_datetime :: "parsers \<Rightarrow> cell \<Rightarrow> error + cell" where
  "to_datetime P c =
     (case c of
        NA \<Rightarrow> Inr NA
      | Dt d \<Rightarrow> Inr (Dt d)
      | Str s \<Rightarrow>
          if s \<in> set nat_strings then Inr NA
          else (case ymd_of s of
                  Some d \<Rightarrow> if in_ns_range d then Inr (Dt d) else library_date P c
                | None \<Rightarrow> if plain s then Inl ParseError else library_date P c)
      | Num x \<Rightarrow> library_date P c)"

text \<open>A timestamp in a measurement column would become its nanosecond count: not modelled.\<close>

definition to_numeric :: "parsers \<Rightarrow> cell \<Rightarrow> error + cell" where
  "to_numeric P c =
     (case c of
        NA \<Rightarrow> Inr NA
      | Num x \<Rightarrow> Inr (Num x)
      | Str s \<Rightarrow> (case parse_numeric P s of Some x \<Rightarrow> Inr (Num x) | None \<Rightarrow> Inr NA)
      | Dt d \<Rightarrow> Inl OutsideModel)"

definition is_integral :: "real \<Rightarrow> bool" where
  "is_integral x = (of_int \<lfloor>x\<rfloor> = x)"

text \<open>
  \<open>.astype("Int64")\<close> on a float column raises TypeError at a value that is no integer of
  64 bits: at a fraction, and at an integer below \<open>-2^63\<close> or from \<open>2^63\<close> on.
\<close>

definition int64_value :: "real \<Rightarrow> bool" where
  "int64_value x = (is_integral x \<and> - (2 ^ 63) \<le> x \<and> x < 2 ^ 63)"

definition astype_Int64 :: "cell \<Rightarrow> error + cell" where
  "astype_Int64 c =
     (case c of
        NA \<Rightarrow> Inr NA
      | Num x \<Rightarrow> if int64_value x then Inr (Num x) else Inl TypeError
      | _ \<Rightarrow> Inl TypeError)"

text \<open>
  A fallible conversion of every value of one column, in row order; the first failure is
  the failure of the whole column.
\<close>

fun map_col :: "(cell \<Rightarrow> error + cell) \<Rightarrow> string \<Rightarrow> row list \<Rightarrow> error + row list" where
  "map_col f c [] = Inr []"
| "map_col f c (r # rs) =
     bind_err (f (r c)) (\<lambda>v. bind_err (map_col f c rs) (\<lambda>rs'. Inr (r(c := v) # rs')))"

definition convert_col ::
  "(cell \<Rightarrow> error + cell) \<Rightarrow> string \<Rightarrow> dtype \<Rightarrow> dataframe \<Rightarrow> error + dataframe" where
  "convert_col f c t df =
     bind_err (map_col f c (rows df)) (\<lambda>rs.
       Inr (df\<lparr>columns := set_dtype c t (columns df), rows := rs\<rparr>))"

definition numeric_cols :: "string list" where
  "numeric_cols = [''precipitation_sum'', ''temperature_2m_max'', ''temperature_2m_min'',
                   ''rain_sum'', ''snowfall_sum'', ''wind_speed_10m_max'']"

fun cast_numeric :: "parsers \<Rightarrow> string list \<Rightarrow> dataframe \<Rightarrow> error + dataframe" where
  "cast_numeric P [] df = Inr df"
| "cast_numeric P (c # cs) df =
     (if has_col df c
      then bind_err (convert_col (to_numeric P) c NumericT df) (cast_numeric P cs)
      else cast_numeric P cs df)"

definition cast_types :: "parsers \<Rightarrow> dataframe \<Rightarrow> error + dataframe" where
  "cast_types P df =
     (if \<not> has_col df ''time'' then Inl (KeyError ''time'')
      else
        bind_err (convert_col (to_datetime P) ''time'' DatetimeT df) (\<lambda>df1.
        bind_err (cast_numeric P numeric_cols df1) (\<lambda>df2.
          if has_col df2 ''weather_code''
          then convert_col (\<lambda>c. bind_err (to_numeric P c) astype_Int64)
                 ''weather_code'' NullableIntT df2
          else Inr df2)))"

subsection \<open>handle_missing_values\<close>

definition row_has_na :: "dataframe \<Rightarrow> row \<Rightarrow> bool" where
  "row_has_na df r = (\<exists>c \<in> set (colnames df). r c = NA)"

definition has_missing :: "dataframe \<Rightarrow> bool" where
  "has_missing df = (\<exists>r \<in> set (rows df). row_has_na df r)"

text \<open>\<open>select_dtypes(include="number")\<close> takes the float, integer and nullable integer columns.\<close>

definition is_number :: "dtype \<Rightarrow> bool" where
  "is_number t = (t = NumericT \<or> t = NullableIntT)"

definition number_cols :: "dataframe \<Rightarrow> (string \<times> dtype) list" where
  "number_cols df = filter (\<lambda>(c, t). is_number t) (columns df)"

definition fill_zero :: "dataframe \<Rightarrow> dataframe" where
  "fill_zero df =
     df\<lparr>rows := map (\<lambda>r c. if c \<in> set (map fst (number_cols df)) \<and> r c = NA then Num 0
                            else r c) (rows df)\<rparr>"

text \<open>\<open>mean()\<close> skips the missing values; the mean of no value at all is NaN.\<close>

definition col_values :: "string \<Rightarrow> row list \<Rightarrow> real list" where
  "col_values c rs = concat (map (\<lambda>r. case r c of Num x \<Rightarrow> [x] | _ \<Rightarrow> []) rs)"

definition mean :: "real list \<Rightarrow> real option" where
  "mean xs = (if xs = [] then None else Some (sum_list xs / real (length xs)))"

definition col_mean :: "dataframe \<Rightarrow> string \<Rightarrow> real option" where
  "col_mean df c = mean (col_values c (rows df))"

text \<open>
  \<open>fillna\<close> with the means fills column by column. A nullable integer column with a
  missing value takes only a mean that is an integer, and raises TypeError for another.
\<close>

definition fill_refused :: "dataframe \<Rightarrow> string \<times> dtype \<Rightarrow> bool" where
  "fill_refused df = (\<lambda>(c, t).
     t = NullableIntT \<and> (\<exists>r \<in> set (rows df). r c = NA) \<and>
     (case col_mean df c of None \<Rightarrow> False | Some m \<Rightarrow> \<not> is_integral m))"

definition fill_mean :: "dataframe \<Rightarrow> error + dataframe" where
  "fill_mean df =
     (if \<exists>ct \<in> set (number_cols df). fill_refused df ct then Inl TypeError
      else Inr (df\<lparr>rows := map (\<lambda>r c.
             if c \<in> set (map fst (number_cols df)) \<and> r c = NA
             then (case col_mean df c of None \<Rightarrow> NA | Some m \<Rightarrow> Num m)
             else r c) (rows df)\<rparr>))"

definition handle_missing_values :: "dataframe \<Rightarrow> string \<Rightarrow> error + dataframe" where
  "handle_missing_values df strategy =
     (if \<not> has_missing df then Inr df
      else if strategy = ''drop'' then Inr (df\<lparr>rows := filter (\<lambda>r. \<not> row_has_na df r) (rows df)\<rparr>)
      else if strategy = ''fill_zero'' then Inr (fill_zero df)
      else if strategy = ''fill_mean'' then fill_mean df
      else Inl (UnknownStrategy strategy))"

subsection \<open>remove_duplicates\<close>

text \<open>
  \<open>drop_duplicates(subset=["city", "time"], keep="first")\<close> returns an empty frame (no rows,
  or no columns) as it is, before it looks at the subset. Otherwise it raises KeyError for
  a column of the subset that is not there, walks the rows in order and keeps a row when
  its pair of values was not seen before; two missing values count as equal. The values
  are compared as they stand: in \<open>transform\<close> the dates are still the strings of the input.
\<close>

definition key_of :: "row \<Rightarrow> cell \<times> cell" where
  "key_of r = (r ''city'', r ''time'')"

fun drop_duplicates :: "(cell \<times> cell) list \<Rightarrow> row list \<Rightarrow> row list" where
  "drop_duplicates seen [] = []"
| "drop_duplicates seen (r # rs) =
     (if key_of r \<in> set seen then drop_duplicates seen rs
      else r # drop_duplicates (key_of r # seen) rs)"

definition remove_duplicates :: "dataframe \<Rightarrow> error + dataframe" where
  "remove_duplicates df =
     (if rows df = [] \<or> columns df = [] then Inr df
      else if \<not> has_col df ''city'' then Inl (KeyError ''city'')
      else if \<not> has_col df ''time'' then Inl (KeyError ''time'')
      else Inr (df\<lparr>rows := drop_duplicates [] (rows df)\<rparr>))"

subsection \<open>add_computed_columns\<close>

text \<open>
  The difference of two columns is taken value by value and is missing where either value
  is. A string among the values raises TypeError; differences with timestamps (a timedelta
  or a TypeError) are not modelled.
\<close>

definition subtractable :: "dataframe \<Rightarrow> string \<Rightarrow> error + unit" where
  "subtractable df c =
     (case dtype_of df c of
        None \<Rightarrow> Inl (KeyError c)
      | Some DatetimeT \<Rightarrow> Inl OutsideModel
      | Some t \<Rightarrow>
          (if \<exists>r \<in> set (rows df). case r c of Dt d \<Rightarrow> True | _ \<Rightarrow> False then Inl OutsideModel
           else if \<exists>r \<in> set (rows df). case r c of Str s \<Rightarrow> True | _ \<Rightarrow> False then Inl TypeError
           else Inr ()))"

definition cell_sub :: "cell \<Rightarrow> cell \<Rightarrow> cell" where
  "cell_sub a b = (case (a, b) of (Num x, Num y) \<Rightarrow> Num (x - y) | _ \<Rightarrow> NA)"

definition month_of :: "cell \<Rightarrow> cell" where
  "month_of c = (case c of Dt d \<Rightarrow> Num (of_int (dt_month d)) | _ \<Rightarrow> NA)"

definition day_name_of :: "cell \<Rightarrow> cell" where
  "day_name_of c = (case c of Dt d \<Rightarrow> Str (day_name d) | _ \<Rightarrow> NA)"

definition add_computed_columns :: "dataframe \<Rightarrow> error + dataframe" where
  "add_computed_columns df =
     bind_err (subtractable df ''temperature_2m_max'') (\<lambda>_.
     bind_err (subtractable df ''temperature_2m_min'') (\<lambda>_.
       let df1 = assign_col ''temp_range'' NumericT
                   (\<lambda>r. cell_sub (r ''temperature_2m_max'') (r ''temperature_2m_min'')) df
       in case dtype_of df1 ''time'' of
            None \<Rightarrow> Inl (KeyError ''time'')
          | Some DatetimeT \<Rightarrow>
              Inr (assign_col ''day_of_week'' ObjectT (\<lambda>r. day_name_of (r ''time''))
                    (assign_col ''month'' NumericT (\<lambda>r. month_of (r ''time'')) df1))
          | Some t \<Rightarrow> Inl AttributeError))"

subsection \<open>transform\<close>

definition drop_source_file :: "dataframe \<Rightarrow> dataframe" where
  "drop_source_file df = df\<lparr>columns := filter (\<lambda>(c, t). c \<noteq> ''source_file'') (columns df)\<rparr>"

definition transform :: "parsers \<Rightarrow> dataframe \<Rightarrow> string \<Rightarrow> error + dataframe" where
  "transform P df missing_strategy =
     bind_err (remove_duplicates (drop_source_file df)) (\<lambda>df1.
     bind_err (cast_types P df1) (\<lambda>df2.
     bind_err (handle_missing_values df2 missing_strategy) (\<lambda>df3.
     bind_err (validate_temperature df3) (\<lambda>df4.
     bind_err (validate_precipitation df4) (\<lambda>df5.
       add_computed_columns df5)))))"

section \<open>load.py\<close>

subsection \<open>The relation and the records sent to it\<close>

text \<open>
  A value as psycopg2 hands it to the server, and a row of \<open>weather_data\<close> with the twelve
  columns that \<open>UPSERT_SQL\<close> names. The columns \<open>id\<close> and \<open>created_at\<close> take their
  defaults on the server; no statement of load.py names them, and they are left out.
\<close>

datatype sqlval = SNull | SText string | SNum real | SDate date | STimestamp date

record wrow =
  city :: sqlval
  time :: sqlval
  precipitation_sum :: sqlval
  temperature_2m_max :: sqlval
  temperature_2m_min :: sqlval
  rain_sum :: sqlval
  snowfall_sum :: sqlval
  weather_code :: sqlval
  wind_speed_10m_max :: sqlval
  temp_range :: sqlval
  month :: sqlval
  day_of_week :: sqlval

text \<open>
  The loop body of \<open>load\<close> for one value: \<open>pd.isna\<close> first, then \<open>val.date()\<close> for the
  column \<open>time\<close>, \<open>int(val)\<close> for \<open>weather_code\<close> (truncation towards zero on a
  number), the value itself elsewhere.
\<close>

definition py_int :: "real \<Rightarrow> real" where
  "py_int x = (if 0 \<le> x then of_int \<lfloor>x\<rfloor> else of_int \<lceil>x\<rceil>)"

definition adapt :: "parsers \<Rightarrow> string \<Rightarrow> cell \<Rightarrow> error + sqlval" where
  "adapt P col val =
     (if val = NA then Inr SNull
      else if col = ''time'' then
        (case val of Dt d \<Rightarrow> Inr (SDate d) | _ \<Rightarrow> Inl AttributeError)
      else if col = ''weather_code'' then
        (case val of
           Num x \<Rightarrow> Inr (SNum (py_int x))
         | Str s \<Rightarrow> (case int_of_str P s of Some i \<Rightarrow> Inr (SNum (of_int i)) | None \<Rightarrow> Inl IntValueError)
         | _ \<Rightarrow> Inl TypeError)
      else
        (case val of
           Num x \<Rightarrow> Inr (SNum x)
         | Str s \<Rightarrow> Inr (SText s)
         | Dt d \<Rightarrow> Inr (STimestamp d)
         | NA \<Rightarrow> Inr SNull))"

text \<open>\<open>row[col]\<close> raises KeyError for a column that is not there.\<close>

definition field :: "parsers \<Rightarrow> dataframe \<Rightarrow> row \<Rightarrow> string \<Rightarrow> error + sqlval" where
  "field P df r col = (if has_col df col then adapt P col (r col) else Inl (KeyError col))"

definition build_record :: "parsers \<Rightarrow> dataframe \<Rightarrow> row \<Rightarrow> error + wrow" where
  "build_record P df r =
     bind_err (field P df r ''city'') (\<lambda>v1.
     bind_err (field P df r ''time'') (\<lambda>v2.
     bind_err (field P df r ''precipitation_sum'') (\<lambda>v3.
     bind_err (field P df r ''temperature_2m_max'') (\<lambda>v4.
     bind_err (field P df r ''temperature_2m_min'') (\<lambda>v5.
     bind_err (field P df r ''rain_sum'') (\<lambda>v6.
     bind_err (field P df r ''snowfall_sum'') (\<lambda>v7.
     bind_err (field P df r ''weather_code'') (\<lambda>v8.
     bind_err (field P df r ''wind_speed_10m_max'') (\<lambda>v9.
     bind_err (field P df r ''temp_range'') (\<lambda>v10.
     bind_err (field P df r ''month'') (\<lambda>v11.
     bind_err (field P df r ''day_of_week'') (\<lambda>v12.
       Inr \<lparr>city = v1, time = v2, precipitation_sum = v3, temperature_2m_max = v4,
            temperature_2m_min = v5, rain_sum = v6, snowfall_sum = v7, weather_code = v8,
            wind_speed_10m_max = v9, temp_range = v10, month = v11,
            day_of_week = v12\<rparr>))))))))))))"

fun build_records :: "parsers \<Rightarrow> dataframe \<Rightarrow> row list \<Rightarrow> error + wrow list" where
  "build_records P df [] = Inr []"
| "build_records P df (r # rs) =
     bind_err (build_record P df r) (\<lambda>w.
     bind_err (build_records P df rs) (\<lambda>ws. Inr (w # ws)))"

subsection \<open>The upsert statement\<close>

text \<open>
  \<open>ON CONFLICT (city, time) DO UPDATE SET ...\<close>: a proposed row whose key is stored already
  overwrites the ten columns of the SET list and leaves the stored \<open>city\<close> and \<open>time\<close> as
  they are; a row with a new key is inserted.
\<close>

definition wkey :: "wrow \<Rightarrow> sqlval \<times> sqlval" where
  "wkey w = (city w, time w)"

definition do_update :: "wrow \<Rightarrow> wrow \<Rightarrow> wrow" where
  "do_update existing excluded =
     existing\<lparr>precipitation_sum := precipitation_sum excluded,
              temperature_2m_max := temperature_2m_max excluded,
              temperature_2m_min := temperature_2m_min excluded,
              rain_sum := rain_sum excluded,
              snowfall_sum := snowfall_sum excluded,
              weather_code := weather_code excluded,
              wind_speed_10m_max := wind_speed_10m_max excluded,
              temp_range := temp_range excluded,
              month := month excluded,
              day_of_week := day_of_week excluded\<rparr>"

fun upsert :: "wrow \<Rightarrow> wrow list \<Rightarrow> wrow list" where
  "upsert new [] = [new]"
| "upsert new (old # t) =
     (if wkey old = wkey new then do_update old new # t else old # upsert new t)"

text \<open>
  What can go wrong on the way to the server is a parameter: whether a connection opens,
  whether the server takes a statement (it may be unreachable, or refuse a value that does
  not fit its column), whether the commit goes through. Each function of load.py opens its
  own connection.
\<close>

record server =
  create_conn_ok :: bool                   \<comment> \<open>\<open>get_connection()\<close> in \<open>create_table\<close>\<close>
  ddl_ok :: bool                           \<comment> \<open>\<open>CREATE TABLE IF NOT EXISTS\<close> and its commit\<close>
  load_conn_ok :: bool                     \<comment> \<open>\<open>get_connection()\<close> in \<open>load\<close>\<close>
  stmt_ok :: "nat \<Rightarrow> wrow list \<Rightarrow> bool"    \<comment> \<open>the statement of the page with this number\<close>
  commit_ok :: bool                        \<comment> \<open>\<open>conn.commit()\<close> in \<open>load\<close>\<close>
  count_conn_ok :: bool                    \<comment> \<open>\<open>get_connection()\<close> in \<open>get_row_count\<close>\<close>

text \<open>
  One statement carries one page of rows. The server refuses it when a key column is NULL
  (\<open>NOT NULL\<close>), and when two of its rows have the same key (an \<open>ON CONFLICT DO UPDATE\<close>
  command cannot affect a row a second time).
\<close>

definition not_null_violation :: "wrow \<Rightarrow> bool" where
  "not_null_violation w = (city w = SNull \<or> time w = SNull)"

definition execute :: "server \<Rightarrow> nat \<Rightarrow> wrow list \<Rightarrow> wrow list \<Rightarrow> error + wrow list" where
  "execute env k page t =
     (if \<not> stmt_ok env k page then Inl StorageError
      else if \<exists>w \<in> set page. not_null_violation w then Inl StorageError
      else if \<not> distinct (map wkey page) then Inl StorageError
      else Inr (fold upsert page t))"

text \<open>\<open>execute_values(cur, UPSERT_SQL, records, page_size=500)\<close>: one statement per page.\<close>

definition page_size :: nat where
  "page_size = 500"

function paginate :: "'a list \<Rightarrow> 'a list list" where
  "paginate xs = (if xs = [] then [] else take page_size xs # paginate (drop page_size xs))"
  by pat_completeness auto
termination
  by (relation "measure length") (auto simp: page_size_def)

declare paginate.simps [simp del]

fun execute_values :: "server \<Rightarrow> nat \<Rightarrow> wrow list list \<Rightarrow> wrow list \<Rightarrow> error + wrow list" where
  "execute_values env k [] t = Inr t"
| "execute_values env k (page # pages) t =
     bind_err (execute env k page t) (execute_values env (Suc k) pages)"

subsection \<open>create_table, load, get_row_count\<close>

text \<open>
  The store holds the committed rows of \<open>weather_data\<close>, or None while the relation does not
  exist. A function returns its result, the store it leaves and the calls it made on its
  connection. Statements run in a transaction: the store changes at a commit only.
\<close>

type_synonym database = "wrow list option"

datatype event = Connect | Execute | Commit | Rollback | Close

definition create_table :: "server \<Rightarrow> database \<Rightarrow> (error + unit) \<times> database \<times> event list" where
  "create_table env db =
     (if \<not> create_conn_ok env then (Inl StorageError, db, [])
      else if \<not> ddl_ok env then (Inl StorageError, db, [Connect, Execute, Close])
      else (Inr (), Some (case db of None \<Rightarrow> [] | Some t \<Rightarrow> t),
            [Connect, Execute, Commit, Close]))"

definition stored_rows :: "database \<Rightarrow> wrow list" where
  "stored_rows db = (case db of None \<Rightarrow> [] | Some t \<Rightarrow> t)"

definition load ::
  "parsers \<Rightarrow> server \<Rightarrow> dataframe \<Rightarrow> database \<Rightarrow> (error + nat) \<times> database \<times> event list" where
  "load P env df db =
     (case create_table env db of
        (Inl e, db1, tr1) \<Rightarrow> (Inl e, db1, tr1)
      | (Inr u, db1, tr1) \<Rightarrow>
          (case build_records P df (rows df) of
             Inl e \<Rightarrow> (Inl e, db1, tr1)
           | Inr records \<Rightarrow>
               if \<not> load_conn_ok env then (Inl StorageError, db1, tr1)
               else
                 (case execute_values env 0 (paginate records) (stored_rows db1) of
                    Inl e \<Rightarrow> (Inl e, db1, tr1 @ [Connect, Execute, Rollback, Close])
                  | Inr t \<Rightarrow>
                      if commit_ok env
                      then (Inr (length (rows df)), Some t,
                            tr1 @ [Connect, Execute, Commit, Close])
                      else (Inl StorageError, db1,
                            tr1 @ [Connect, Execute, Commit, Rollback, Close]))))"

definition get_row_count :: "server \<Rightarrow> database \<Rightarrow> (error + nat) \<times> event list" where
  "get_row_count env db =
     (if \<not> count_conn_ok env then (Inl StorageError, [])
      else case db of
             None \<Rightarrow> (Inl StorageError, [Connect, Execute, Close])
           | Some t \<Rightarrow> (Inr (length t), [Connect, Execute, Close]))"

section \<open>main.py\<close>


section \<open>What cast_types makes of one value\<close>





section \<open>Datasets ready for load\<close>

text \<open>
  A dataset as \<open>transform\<close> leaves it when nothing is missing in the key: it has the twelve
  columns that \<open>load\<close> reads, every row has a city name and a date, a weather code is a
  number or missing, and no two rows have the same city and date. \<open>record_of\<close> is the
  record \<open>load\<close> sends for a row of such a dataset.
\<close>

definition load_columns :: "string list" where
  "load_columns =
     [''city'', ''time'', ''precipitation_sum'', ''temperature_2m_max'', ''temperature_2m_min'',
      ''rain_sum'', ''snowfall_sum'', ''weather_code'', ''wind_speed_10m_max'', ''temp_range'',
      ''month'', ''day_of_week'']"

definition loadable_row :: "row \<Rightarrow> bool" where
  "loadable_row r =
     ((case r ''city'' of Str s \<Rightarrow> True | _ \<Rightarrow> False) \<and>
      (case r ''time'' of Dt d \<Rightarrow> True | _ \<Rightarrow> False) \<and>
      (case r ''weather_code'' of NA \<Rightarrow> True | Num x \<Rightarrow> True | _ \<Rightarrow> False))"

definition loadable :: "dataframe \<Rightarrow> bool" where
  "loadable df =
     ((\<forall>c \<in> set load_columns. has_col df c) \<and>
      (\<forall>r \<in> set (rows df). loadable_row r) \<and>
      distinct (map key_of (rows df)))"

definition sql_of :: "cell \<Rightarrow> sqlval" where
  "sql_of v = (case v of NA \<Rightarrow> SNull | Str s \<Rightarrow> SText s | Num x \<Rightarrow> SNum x | Dt d \<Rightarrow> STimestamp d)"

definition record_of :: "row \<Rightarrow> wrow" where
  "record_of r =
     \<lparr>city = sql_of (r ''city''),
      time = (case r ''time'' of Dt d \<Rightarrow> SDate d | _ \<Rightarrow> SNull),
      precipitation_sum = sql_of (r ''precipitation_sum''),
      temperature_2m_max = sql_of (r ''temperature_2m_max''),
      temperature_2m_min = sql_of (r ''temperature_2m_min''),
      rain_sum = sql_of (r ''rain_sum''),
      snowfall_sum = sql_of (r ''snowfall_sum''),
      weather_code = (case r ''weather_code'' of Num x \<Rightarrow> SNum (py_int x) | _ \<Rightarrow> SNull),
      wind_speed_10m_max = sql_of (r ''wind_speed_10m_max''),
      temp_range = sql_of (r ''temp_range''),
      month = sql_of (r ''month''),
      day_of_week = sql_of (r ''day_of_week'')\<rparr>"

text \<open>
  The server takes every statement and every commit of a run, and the store keeps its
  constraint \<open>UNIQUE(city, time)\<close>.
\<close>

definition accepting :: "server \<Rightarrow> bool" where
  "accepting env =
     (create_conn_ok env \<and> ddl_ok env \<and> load_conn_ok env \<and> (\<forall>k page. stmt_ok env k page) \<and>
      commit_ok env)"

definition unique_keys :: "database \<Rightarrow> bool" where
  "unique_keys db = distinct (map wkey (stored_rows db))"

text \<open>A page on which the statement fails: the server refuses it, or a constraint does.\<close>

definition page_fails :: "server \<Rightarrow> nat \<Rightarrow> wrow list \<Rightarrow> bool" where
  "page_fails env k page =
     (\<not> stmt_ok env k page \<or> (\<exists>w \<in> set page. not_null_violation w) \<or>
      \<not> distinct (map wkey page))"

section \<open>Sample data\<close>

text \<open>
  Frames in the shape of the fixtures of tests/test_transform.py and tests/test_load.py, and
  a table of numerals for the strings that occur in them.
\<close>

definition mk_row :: "(string \<times> cell) list \<Rightarrow> row" where
  "mk_row kvs = (\<lambda>c. case map_of kvs c of Some v \<Rightarrow> v | None \<Rightarrow> NA)"

definition sample_parsers :: parsers where
  "sample_parsers =
     \<lparr>strptime = (\<lambda>c. DtFail),
      parse_numeric = map_of [(''7.3'', 73 / 10), (''3.4'', 34 / 10), (''53'', 53), (''53.5'', 107 / 2)],
      int_of_str = map_of [(''53'', 53), (''61'', 61), (''63'', 63)]\<rparr>"

definition raw_columns :: "(string \<times> dtype) list" where
  "raw_columns =
     [(''time'', ObjectT), (''city'', ObjectT), (''temperature_2m_max'', NumericT),
      (''temperature_2m_min'', NumericT), (''precipitation_sum'', NumericT),
      (''rain_sum'', NumericT), (''snowfall_sum'', NumericT), (''weather_code'', NumericT),
      (''wind_speed_10m_max'', NumericT), (''source_file'', ObjectT)]"

definition raw_row :: "string \<Rightarrow> string \<Rightarrow> real \<Rightarrow> real \<Rightarrow> real \<Rightarrow> row" where
  "raw_row t c tmax tmin p =
     mk_row [(''time'', Str t), (''city'', Str c), (''temperature_2m_max'', Num tmax),
             (''temperature_2m_min'', Num tmin), (''precipitation_sum'', Num p),
             (''rain_sum'', Num p), (''snowfall_sum'', Num 0), (''weather_code'', Num 53),
             (''wind_speed_10m_max'', Num (197 / 10)), (''source_file'', Str ''berlin.csv'')]"

definition sample_raw :: dataframe where
  "sample_raw =
     \<lparr>columns = raw_columns,
      rows = [raw_row ''2024-01-01'' ''berlin'' (73 / 10) (34 / 10) (19 / 10),
              raw_row ''2024-01-01'' ''berlin'' 8 (34 / 10) (19 / 10),
              raw_row ''2024-01-02'' ''berlin'' 100 (34 / 10) (85 / 10),
              raw_row ''2024-01-03'' ''berlin'' (106 / 10) (72 / 10) (- 1),
              raw_row ''2024-01-04'' ''berlin'' 60 (- 60) 0]\<rparr>"

text \<open>Two cities on one day, and one day of one city spelled in two ways.\<close>

definition two_cities :: dataframe where
  "two_cities =
     \<lparr>columns = raw_columns,
      rows = [raw_row ''2024-01-01'' ''berlin'' (73 / 10) (34 / 10) (19 / 10),
              raw_row ''2024-01-01'' ''cologne'' 8 4 (21 / 10),
              raw_row ''2024-01-01'' ''berlin'' 9 (34 / 10) (19 / 10)]\<rparr>"

definition two_spellings :: dataframe where
  "two_spellings =
     \<lparr>columns = raw_columns,
      rows = [raw_row ''2024-01-05'' ''berlin'' 1 0 0,
              raw_row ''2024-1-5'' ''berlin'' 2 0 0]\<rparr>"

definition typed_columns :: "(string \<times> dtype) list" where
  "typed_columns =
     [(''time'', DatetimeT), (''city'', ObjectT), (''temperature_2m_max'', NumericT),
      (''temperature_2m_min'', NumericT), (''precipitation_sum'', NumericT),
      (''rain_sum'', NumericT), (''snowfall_sum'', NumericT), (''weather_code'', NullableIntT),
      (''wind_speed_10m_max'', NumericT)]"

definition typed_row :: "int \<Rightarrow> string \<Rightarrow> cell \<Rightarrow> cell \<Rightarrow> cell \<Rightarrow> cell \<Rightarrow> row" where
  "typed_row d c tmax tmin p w =
     mk_row [(''time'', Dt (Date 2024 1 d)), (''city'', Str c), (''temperature_2m_max'', tmax),
             (''temperature_2m_min'', tmin), (''precipitation_sum'', p),
             (''rain_sum'', p), (''snowfall_sum'', Num 0), (''weather_code'', w),
             (''wind_speed_10m_max'', Num (197 / 10))]"

definition sample_typed :: dataframe where
  "sample_typed =
     \<lparr>columns = typed_columns,
      rows = [typed_row 1 ''berlin'' (Num (73 / 10)) (Num (34 / 10)) (Num (19 / 10)) (Num 53),
              typed_row 2 ''berlin'' (Num 100) (Num (34 / 10)) (Num (85 / 10)) (Num 61),
              typed_row 3 ''berlin'' (Num 60) (Num (- 60)) (Num (- 1)) (Num 63)]\<rparr>"

definition sample_gaps :: dataframe where
  "sample_gaps =
     \<lparr>columns = typed_columns,
      rows = [typed_row 1 ''berlin'' NA (Num 3) (Num 1) (Num 53),
              typed_row 2 ''berlin'' NA (Num 4) NA NA,
              typed_row 3 ''berlin'' NA (Num 8) (Num 2) (Num 62)]\<rparr>"

definition missing_max :: dataframe where
  "missing_max =
     \<lparr>columns = typed_columns,
      rows = [typed_row 4 ''berlin'' NA (Num 100) (Num 0) (Num 53)]\<rparr>"

text \<open>Temperature and precipitation columns of the nullable integer dtype.\<close>

definition nullable_temps :: dataframe where
  "nullable_temps =
     \<lparr>columns = [(''time'', DatetimeT), (''city'', ObjectT),
                 (''temperature_2m_max'', NullableIntT), (''temperature_2m_min'', NullableIntT)],
      rows = [mk_row [(''time'', Dt (Date 2024 1 1)), (''city'', Str ''berlin''),
                      (''temperature_2m_max'', NA), (''temperature_2m_min'', Num 3)],
              mk_row [(''time'', Dt (Date 2024 1 2)), (''city'', Str ''berlin''),
                      (''temperature_2m_max'', Num 7), (''temperature_2m_min'', Num 3)]]\<rparr>"

definition nullable_precip :: dataframe where
  "nullable_precip =
     \<lparr>columns = [(''precipitation_sum'', NullableIntT)],
      rows = [mk_row [(''precipitation_sum'', NA)], mk_row [(''precipitation_sum'', Num 1)]]\<rparr>"

text \<open>The three precipitation columns, with a negative value in each of them in turn.\<close>

definition precip_row :: "cell \<Rightarrow> cell \<Rightarrow> cell \<Rightarrow> row" where
  "precip_row p r s = mk_row [(''precipitation_sum'', p), (''rain_sum'', r), (''snowfall_sum'', s)]"

definition sample_precip :: dataframe where
  "sample_precip =
     \<lparr>columns = [(''precipitation_sum'', NumericT), (''rain_sum'', NumericT),
                 (''snowfall_sum'', NumericT)],
      rows = [precip_row (Num 1) (Num 1) (Num 0),
              precip_row (Num (- 5)) (Num 1) (Num 0),
              precip_row (Num 1) (Num (- 1)) (Num 0),
              precip_row (Num 1) (Num 1) (Num (- 2)),
              precip_row NA NA NA]\<rparr>"

definition string_columns :: "(string \<times> dtype) list" where
  "string_columns =
     [(''time'', ObjectT), (''city'', ObjectT), (''temperature_2m_max'', ObjectT),
      (''temperature_2m_min'', NumericT), (''weather_code'', ObjectT)]"

definition string_row :: "string \<Rightarrow> cell \<Rightarrow> cell \<Rightarrow> row" where
  "string_row t tmax w =
     mk_row [(''time'', Str t), (''city'', Str ''berlin''), (''temperature_2m_max'', tmax),
             (''temperature_2m_min'', Num (34 / 10)), (''weather_code'', w)]"

definition sample_strings :: dataframe where
  "sample_strings =
     \<lparr>columns = string_columns,
      rows = [string_row ''2024-01-01'' (Str ''7.3'') (Str ''53''),
              string_row ''2024-01-02'' (Str ''n/a'') (Str ''n/a'')]\<rparr>"

definition sample_bad_date :: dataframe where
  "sample_bad_date =
     \<lparr>columns = string_columns,
      rows = [string_row ''2024-01-01'' (Str ''7.3'') (Str ''53''),
              string_row ''02/01/2024'' (Str ''7.3'') (Str ''53'')]\<rparr>"

definition sample_loose_date :: dataframe where
  "sample_loose_date =
     \<lparr>columns = string_columns,
      rows = [string_row ''2024-1-5'' (Str ''7.3'') (Str ''53'')]\<rparr>"

definition sample_half_code :: dataframe where
  "sample_half_code =
     \<lparr>columns = string_columns,
      rows = [string_row ''2024-01-01'' (Str ''7.3'') (Str ''n/a''),
              string_row ''2024-01-02'' (Str ''7.3'') (Num (107 / 2))]\<rparr>"

text \<open>A server that is reachable and takes every statement.\<close>

definition reliable :: server where
  "reliable =
     \<lparr>create_conn_ok = True, ddl_ok = True, load_conn_ok = True,
      stmt_ok = (\<lambda>k page. True), commit_ok = True, count_conn_ok = True\<rparr>"

definition unreachable :: server where
  "unreachable = reliable\<lparr>stmt_ok := (\<lambda>k page. False)\<rparr>"

definition loaded_columns :: "(string \<times> dtype) list" where
  "loaded_columns =
     typed_columns @ [(''temp_range'', NumericT), (''month'', NumericT), (''day_of_week'', ObjectT)]"

definition loaded_row :: "string \<Rightarrow> int \<Rightarrow> real \<Rightarrow> real \<Rightarrow> string \<Rightarrow> row" where
  "loaded_row c d tmax tmin name =
     (typed_row d c (Num tmax) (Num tmin) (Num (19 / 10)) (Num 53))
       (''temp_range'' := Num (tmax - tmin), ''month'' := Num 1, ''day_of_week'' := Str name)"

definition sample_load :: dataframe where
  "sample_load =
     \<lparr>columns = loaded_columns,
      rows = [loaded_row ''berlin'' 1 (73 / 10) (34 / 10) ''Monday'',
              loaded_row ''berlin'' 2 (72 / 10) (25 / 10) ''Tuesday'',
              loaded_row ''cologne'' 1 8 4 ''Monday'']\<rparr>"

definition sample_reload :: dataframe where
  "sample_reload =
     \<lparr>columns = loaded_columns,
      rows = [loaded_row ''berlin'' 1 99 (34 / 10) ''Monday'',
              loaded_row ''berlin'' 2 (72 / 10) (25 / 10) ''Tuesday'',
              loaded_row ''cologne'' 1 8 4 ''Monday'']\<rparr>"

definition all_missing :: dataframe where
  "all_missing =
     \<lparr>columns = [(''a'', NumericT)], rows = [mk_row [(''a'', NA)], mk_row [(''a'', NA)]]\<rparr>"

definition column_a :: dataframe where
  "column_a =
     \<lparr>columns = [(''a'', NumericT)],
      rows = [mk_row [(''a'', Num 1)], mk_row [(''a'', NA)], mk_row [(''a'', Num 3)]]\<rparr>"

section \<open>The derived columns of one row\<close>

text \<open>What \<open>add_computed_columns\<close> writes into a row, whatever the row held in these columns.\<close>

definition derive :: "row \<Rightarrow> row" where
  "derive r = r(''temp_range'' := cell_sub (r ''temperature_2m_max'') (r ''temperature_2m_min''),
                ''month'' := month_of (r ''time''),
                ''day_of_week'' := day_name_of (r ''time''))"

section \<open>Basic facts\<close>

lemma bind_err_simps [simp]:
  "bind_err (Inl e) f = Inl e"
  "bind_err (Inr x) f = f x"
  by (simp_all add: bind_err_def)

lemma bind_err_Inr_iff: "bind_err m f = Inr y \<longleftrightarrow> (\<exists>x. m = Inr x \<and> f x = Inr y)"
  by (cases m) simp_all

lemma comparable_number:
  "dtype_of df c = Some NumericT \<or> dtype_of df c = Some NullableIntT \<Longrightarrow> comparable df c = Inr ()"
  by (auto simp: comparable_def)

lemma comparable_all_number:
  "\<forall>c \<in> set cs. dtype_of df c = Some NumericT \<or> dtype_of df c = Some NullableIntT \<Longrightarrow>
     comparable_all df cs = Inr ()"
  by (induction cs) (simp_all add: comparable_number)

lemma or3_False: "or3 a b = Some False \<longleftrightarrow> a = Some False \<and> b = Some False"
  by (cases a; cases b) (auto simp: or3_def)

lemma or3_True: "or3 a b = Some True \<longleftrightarrow> a = Some True \<or> b = Some True"
  by (cases a; cases b) (auto simp: or3_def)

lemma compare_col_False:
  "compare_col df c p r = Some False \<longleftrightarrow>
     \<not> (\<exists>x. r c = Num x \<and> p x) \<and> \<not> (dtype_of df c = Some NullableIntT \<and> r c = NA)"
  by (cases "r c") (simp_all add: compare_col_def)

lemma compare_col_True: "compare_col df c p r = Some True \<longleftrightarrow> (\<exists>x. r c = Num x \<and> p x)"
  by (cases "r c") (simp_all add: compare_col_def)

lemma temperature_kept:
  "temperature_mask df r = Some False \<longleftrightarrow>
     \<not> ((\<exists>x. r ''temperature_2m_max'' = Num x \<and> x \<notin> {- 60..60}) \<or>
        (\<exists>x. r ''temperature_2m_min'' = Num x \<and> x \<notin> {- 60..60}) \<or>
        (dtype_of df ''temperature_2m_max'' = Some NullableIntT \<and> r ''temperature_2m_max'' = NA) \<or>
        (dtype_of df ''temperature_2m_min'' = Some NullableIntT \<and> r ''temperature_2m_min'' = NA))"
  unfolding temperature_mask_def or3_False compare_col_False by auto

lemma temperature_rejected:
  "temperature_mask df r = Some True \<longleftrightarrow>
     (\<exists>x. r ''temperature_2m_max'' = Num x \<and> x \<notin> {- 60..60}) \<or>
     (\<exists>x. r ''temperature_2m_min'' = Num x \<and> x \<notin> {- 60..60})"
  unfolding temperature_mask_def or3_True compare_col_True by auto

lemma fold_or3_False:
  "fold (\<lambda>c mask. or3 mask (f c)) cs m = Some False \<longleftrightarrow>
     m = Some False \<and> (\<forall>c \<in> set cs. f c = Some False)"
  by (induction cs arbitrary: m) (auto simp: or3_False)

lemma precipitation_kept:
  "precipitation_mask df r = Some False \<longleftrightarrow>
     (\<forall>c \<in> set (existing_cols df).
        \<not> (\<exists>x. r c = Num x \<and> x < 0) \<and> \<not> (dtype_of df c = Some NullableIntT \<and> r c = NA))"
  by (simp add: precipitation_mask_def fold_or3_False compare_col_False)

lemma existing_cols_iff:
  "c \<in> set (existing_cols df) \<longleftrightarrow>
     (c = ''precipitation_sum'' \<or> c = ''rain_sum'' \<or> c = ''snowfall_sum'') \<and> has_col df c"
  by (auto simp: existing_cols_def precip_cols_def)

lemma validate_temperature_rows:
  "validate_temperature df = Inr out \<Longrightarrow>
     out = df\<lparr>rows := filter (\<lambda>r. temperature_mask df r = Some False) (rows df)\<rparr>"
  by (auto simp: validate_temperature_def bind_err_Inr_iff Let_def split: if_splits)

lemma validate_precipitation_rows:
  "validate_precipitation df = Inr out \<Longrightarrow>
     out = df\<lparr>rows := filter (\<lambda>r. precipitation_mask df r = Some False) (rows df)\<rparr>"
  by (auto simp: validate_precipitation_def bind_err_Inr_iff)

lemma has_col_set_dtype: "c \<in> set (map fst (set_dtype c' t cs)) \<longleftrightarrow> c = c' \<or> c \<in> set (map fst cs)"
proof (cases "c' \<in> set (map fst cs)")
  case True
  have "map fst (map (\<lambda>(n, u). if n = c' then (n, t) else (n, u)) cs) = map fst cs"
    by (induction cs) auto
  with True show ?thesis by (auto simp: set_dtype_def)
next
  case False
  then show ?thesis by (auto simp: set_dtype_def)
qed

lemma has_col_assign_col: "has_col (assign_col c' t f df) c \<longleftrightarrow> c = c' \<or> has_col df c"
  using has_col_set_dtype [of c c' t "columns df"]
  by (simp add: has_col_def colnames_def assign_col_def)

lemma rows_assign_col: "rows (assign_col c t f df) = map (\<lambda>r. r(c := f r)) (rows df)"
  by (simp add: assign_col_def)

lemma add_computed_columns_Inr:
  assumes "add_computed_columns df = Inr out"
  shows "out = assign_col ''day_of_week'' ObjectT (\<lambda>r. day_name_of (r ''time''))
                 (assign_col ''month'' NumericT (\<lambda>r. month_of (r ''time''))
                   (assign_col ''temp_range'' NumericT
                      (\<lambda>r. cell_sub (r ''temperature_2m_max'') (r ''temperature_2m_min'')) df))"
  using assms
  by (simp add: add_computed_columns_def bind_err_Inr_iff Let_def
      split: option.splits dtype.splits)

lemma add_computed_columns_rows:
  assumes "add_computed_columns df = Inr out"
  shows "rows out = map derive (rows df)"
  unfolding add_computed_columns_Inr [OF assms]
  by (simp add: rows_assign_col derive_def o_def)

lemma add_computed_columns_has_col:
  assumes "add_computed_columns df = Inr out"
  shows "has_col out c \<longleftrightarrow> c \<in> {''temp_range'', ''month'', ''day_of_week''} \<or> has_col df c"
  unfolding add_computed_columns_Inr [OF assms]
  by (auto simp: has_col_assign_col)

lemma transform_stages:
  assumes "transform P raw s = Inr out"
  obtains df3 df4 df5 where
    "validate_temperature df3 = Inr df4" "validate_precipitation df4 = Inr df5"
    "add_computed_columns df5 = Inr out"
  using assms unfolding transform_def bind_err_Inr_iff by blast

lemmas sample_defs = sample_typed_def typed_columns_def typed_row_def mk_row_def
  sample_gaps_def missing_max_def column_a_def all_missing_def
  string_columns_def string_row_def sample_strings_def sample_bad_date_def sample_half_code_def
  sample_loose_date_def two_cities_def two_spellings_def nullable_temps_def nullable_precip_def
  precip_row_def sample_precip_def
  loaded_columns_def loaded_row_def sample_load_def sample_reload_def sample_raw_def raw_columns_def raw_row_def
  sample_parsers_def

lemmas frame_defs = has_col_def colnames_def dtype_of_def

lemmas date_defs = to_datetime_def library_date_def plain_def ymd_of_def number_of_def digit_of_def
  nat_strings_def in_ns_range_def days_from_civil_def leap_year_def days_in_month_def

lemmas stage_defs = transform_def remove_duplicates_def drop_source_file_def key_of_def
  cast_types_def convert_col_def set_dtype_def numeric_cols_def to_numeric_def astype_Int64_def
  int64_value_def is_integral_def handle_missing_values_def has_missing_def row_has_na_def
  validate_temperature_def comparable_def temperature_kept temperature_rejected
  validate_precipitation_def existing_cols_def precip_cols_def precipitation_kept
  add_computed_columns_def subtractable_def assign_col_def cell_sub_def month_of_def
  day_name_of_def day_name_def day_names_def weekday_def

lemma sample_dates:
  "to_datetime P (Str ''2024-01-01'') = Inr (Dt (Date 2024 1 1))"
  "to_datetime P (Str ''2024-01-02'') = Inr (Dt (Date 2024 1 2))"
  "to_datetime P (Str ''2024-01-03'') = Inr (Dt (Date 2024 1 3))"
  "to_datetime P (Str ''2024-01-04'') = Inr (Dt (Date 2024 1 4))"
  "to_datetime P (Str ''2024-01-05'') = Inr (Dt (Date 2024 1 5))"
  "to_datetime P (Str ''2024-1-5'') = Inr (Dt (Date 2024 1 5))"
  "to_datetime P (Str ''02/01/2024'') = Inl ParseError"
  by (simp_all add: date_defs)

lemma sample_transform:
  "\<exists>out. transform sample_parsers sample_raw ''drop'' = Inr out \<and>
     map (\<lambda>r. map r [''time'', ''temperature_2m_max'', ''temperature_2m_min'', ''precipitation_sum'',
                      ''temp_range'', ''month'', ''day_of_week'']) (rows out) =
       [[Dt (Date 2024 1 1), Num (73 / 10), Num (34 / 10), Num (19 / 10), Num (39 / 10), Num 1,
         Str ''Monday''],
        [Dt (Date 2024 1 4), Num 60, Num (- 60), Num 0, Num 120, Num 1, Str ''Thursday'']]"
  by (simp add: stage_defs sample_dates sample_defs frame_defs days_from_civil_def)

section \<open>Temperature validation\<close>

lemma validate_temperature_number:
  assumes "dtype_of df ''temperature_2m_max'' = Some NumericT \<or>
           dtype_of df ''temperature_2m_max'' = Some NullableIntT"
    and "dtype_of df ''temperature_2m_min'' = Some NumericT \<or>
         dtype_of df ''temperature_2m_min'' = Some NullableIntT"
    and "has_col df ''city''" and "has_col df ''time''"
  shows "validate_temperature df =
           Inr (df\<lparr>rows := filter (\<lambda>r. temperature_mask df r = Some False) (rows df)\<rparr>)"
  using assms by (simp add: validate_temperature_def comparable_number)

text \<open>
  C3, as the code has it. Take a frame with the columns \<open>city\<close> and \<open>time\<close> whose two
  temperature columns are float columns or nullable integer columns. \<open>validate_temperature\<close>
  returns the frame with exactly the rows removed in which \<open>temperature_2m_max\<close> or
  \<open>temperature_2m_min\<close> is a number outside the closed interval from -60 to 60, or is
  missing in a nullable integer column; the rows it keeps are kept as they are. On float
  columns, the columns \<open>cast_types\<close> makes, these are exactly the rows with a temperature
  outside the interval. No row of an output of \<open>transform\<close> has
  \<open>temperature_2m_max = 100.0\<close> and \<open>temperature_2m_min = 3.4\<close>, and every temperature of
  an output row lies in the interval.
\<close>

theorem validate_temperature_exact:
  assumes "dtype_of df ''temperature_2m_max'' = Some NumericT \<or>
           dtype_of df ''temperature_2m_max'' = Some NullableIntT"
    and "dtype_of df ''temperature_2m_min'' = Some NumericT \<or>
         dtype_of df ''temperature_2m_min'' = Some NullableIntT"
    and "has_col df ''city''" and "has_col df ''time''"
  shows "validate_temperature df =
           Inr (df\<lparr>rows := filter (\<lambda>r.
                  \<not> ((\<exists>x. r ''temperature_2m_max'' = Num x \<and> x \<notin> {- 60..60}) \<or>
                     (\<exists>x. r ''temperature_2m_min'' = Num x \<and> x \<notin> {- 60..60}) \<or>
                     (dtype_of df ''temperature_2m_max'' = Some NullableIntT \<and>
                        r ''temperature_2m_max'' = NA) \<or>
                     (dtype_of df ''temperature_2m_min'' = Some NullableIntT \<and>
                        r ''temperature_2m_min'' = NA))) (rows df)\<rparr>) \<and>
         (dtype_of df ''temperature_2m_max'' = Some NumericT \<and>
          dtype_of df ''temperature_2m_min'' = Some NumericT \<longrightarrow>
            validate_temperature df =
              Inr (df\<lparr>rows := filter (\<lambda>r.
                     \<not> ((\<exists>x. r ''temperature_2m_max'' = Num x \<and> x \<notin> {- 60..60}) \<or>
                        (\<exists>x. r ''temperature_2m_min'' = Num x \<and> x \<notin> {- 60..60}))) (rows df)\<rparr>)) \<and>
         (\<forall>out. transform P raw strategy = Inr out \<longrightarrow>
            (\<forall>r \<in> set (rows out).
               \<not> (r ''temperature_2m_max'' = Num 100 \<and> r ''temperature_2m_min'' = Num (34 / 10)) \<and>
               (\<forall>x. r ''temperature_2m_max'' = Num x \<or> r ''temperature_2m_min'' = Num x
                    \<longrightarrow> x \<in> {- 60..60})))"
proof -
  note v = validate_temperature_number [OF assms]
  have first: "validate_temperature df =
           Inr (df\<lparr>rows := filter (\<lambda>r.
                  \<not> ((\<exists>x. r ''temperature_2m_max'' = Num x \<and> x \<notin> {- 60..60}) \<or>
                     (\<exists>x. r ''temperature_2m_min'' = Num x \<and> x \<notin> {- 60..60}) \<or>
                     (dtype_of df ''temperature_2m_max'' = Some NullableIntT \<and>
                        r ''temperature_2m_max'' = NA) \<or>
                     (dtype_of df ''temperature_2m_min'' = Some NullableIntT \<and>
                        r ''temperature_2m_min'' = NA))) (rows df)\<rparr>)"
    using v by (simp only: temperature_kept)
  have float: "validate_temperature df =
              Inr (df\<lparr>rows := filter (\<lambda>r.
                     \<not> ((\<exists>x. r ''temperature_2m_max'' = Num x \<and> x \<notin> {- 60..60}) \<or>
                        (\<exists>x. r ''temperature_2m_min'' = Num x \<and> x \<notin> {- 60..60}))) (rows df)\<rparr>)"
    if "dtype_of df ''temperature_2m_max'' = Some NumericT \<and>
        dtype_of df ''temperature_2m_min'' = Some NumericT"
  proof -
    from that have "(\<lambda>r. temperature_mask df r = Some False) =
        (\<lambda>r. \<not> ((\<exists>x. r ''temperature_2m_max'' = Num x \<and> x \<notin> {- 60..60}) \<or>
                        (\<exists>x. r ''temperature_2m_min'' = Num x \<and> x \<notin> {- 60..60})))"
      by (intro ext) (simp add: temperature_kept)
    with v show ?thesis by simp
  qed
  have second: "\<not> (r ''temperature_2m_max'' = Num 100 \<and> r ''temperature_2m_min'' = Num (34 / 10)) \<and>
               (\<forall>x. r ''temperature_2m_max'' = Num x \<or> r ''temperature_2m_min'' = Num x
                    \<longrightarrow> x \<in> {- 60..60})"
    if t: "transform P raw strategy = Inr out" and r: "r \<in> set (rows out)" for out r
  proof -
    from t obtain df3 df4 df5 where
      s: "validate_temperature df3 = Inr df4" "validate_precipitation df4 = Inr df5"
         "add_computed_columns df5 = Inr out"
      by (rule transform_stages)
    from r add_computed_columns_rows [OF s(3)] obtain r0 where
      r0: "r0 \<in> set (rows df5)" "r = derive r0" by auto
    from r0(1) validate_precipitation_rows [OF s(2)] have "r0 \<in> set (rows df4)" by simp
    with validate_temperature_rows [OF s(1)] have "temperature_mask df3 r0 = Some False" by simp
    moreover have "r ''temperature_2m_max'' = r0 ''temperature_2m_max''"
      "r ''temperature_2m_min'' = r0 ''temperature_2m_min''"
      by (simp_all add: r0(2) derive_def)
    ultimately have "\<not> ((\<exists>x. r ''temperature_2m_max'' = Num x \<and> x \<notin> {- 60..60}) \<or>
                       (\<exists>x. r ''temperature_2m_min'' = Num x \<and> x \<notin> {- 60..60}))"
      by (simp add: temperature_kept)
    then show ?thesis by auto
  qed
  show ?thesis
  proof (intro conjI impI allI)
    show "validate_temperature df =
           Inr (df\<lparr>rows := filter (\<lambda>r.
                  \<not> ((\<exists>x. r ''temperature_2m_max'' = Num x \<and> x \<notin> {- 60..60}) \<or>
                     (\<exists>x. r ''temperature_2m_min'' = Num x \<and> x \<notin> {- 60..60}) \<or>
                     (dtype_of df ''temperature_2m_max'' = Some NullableIntT \<and>
                        r ''temperature_2m_max'' = NA) \<or>
                     (dtype_of df ''temperature_2m_min'' = Some NullableIntT \<and>
                        r ''temperature_2m_min'' = NA))) (rows df)\<rparr>)"
      by (rule first)
  next
    assume "dtype_of df ''temperature_2m_max'' = Some NumericT \<and>
          dtype_of df ''temperature_2m_min'' = Some NumericT"
    then show "validate_temperature df =
              Inr (df\<lparr>rows := filter (\<lambda>r.
                     \<not> ((\<exists>x. r ''temperature_2m_max'' = Num x \<and> x \<notin> {- 60..60}) \<or>
                        (\<exists>x. r ''temperature_2m_min'' = Num x \<and> x \<notin> {- 60..60}))) (rows df)\<rparr>)"
      by (rule float)
  next
    fix out
    assume "transform P raw strategy = Inr out"
    then show "\<forall>r \<in> set (rows out).
               \<not> (r ''temperature_2m_max'' = Num 100 \<and> r ''temperature_2m_min'' = Num (34 / 10)) \<and>
               (\<forall>x. r ''temperature_2m_max'' = Num x \<or> r ''temperature_2m_min'' = Num x
                    \<longrightarrow> x \<in> {- 60..60})"
      using second by blast
  qed
qed

theorem validate_temperature_exact_witness:
  "validate_temperature sample_typed =
     Inr (sample_typed\<lparr>rows :=
       [typed_row 1 ''berlin'' (Num (73 / 10)) (Num (34 / 10)) (Num (19 / 10)) (Num 53),
        typed_row 3 ''berlin'' (Num 60) (Num (- 60)) (Num (- 1)) (Num 63)]\<rparr>) \<and>
   (\<exists>out. transform sample_parsers sample_raw ''drop'' = Inr out \<and>
      (\<forall>r \<in> set (rows out).
         \<not> (r ''temperature_2m_max'' = Num 100 \<and> r ''temperature_2m_min'' = Num (34 / 10))))"
proof -
  have f: "dtype_of sample_typed ''temperature_2m_max'' = Some NumericT \<and>
           dtype_of sample_typed ''temperature_2m_min'' = Some NumericT"
    by (simp add: sample_defs frame_defs)
  then have h: "dtype_of sample_typed ''temperature_2m_max'' = Some NumericT \<or>
      dtype_of sample_typed ''temperature_2m_max'' = Some NullableIntT"
    "dtype_of sample_typed ''temperature_2m_min'' = Some NumericT \<or>
      dtype_of sample_typed ''temperature_2m_min'' = Some NullableIntT"
    by simp_all
  have k: "has_col sample_typed ''city''" "has_col sample_typed ''time''"
    by (simp_all add: sample_defs frame_defs)
  obtain out where o: "transform sample_parsers sample_raw ''drop'' = Inr out"
    using sample_transform by blast
  note t = validate_temperature_exact [OF h k, of sample_parsers sample_raw "''drop''"]
  from t [THEN conjunct2, THEN conjunct1] f have "validate_temperature sample_typed =
           Inr (sample_typed\<lparr>rows := filter (\<lambda>r.
                  \<not> ((\<exists>x. r ''temperature_2m_max'' = Num x \<and> x \<notin> {- 60..60}) \<or>
                     (\<exists>x. r ''temperature_2m_min'' = Num x \<and> x \<notin> {- 60..60}))) (rows sample_typed)\<rparr>)"
    by (rule mp)
  then have a: "validate_temperature sample_typed =
     Inr (sample_typed\<lparr>rows :=
       [typed_row 1 ''berlin'' (Num (73 / 10)) (Num (34 / 10)) (Num (19 / 10)) (Num 53),
        typed_row 3 ''berlin'' (Num 60) (Num (- 60)) (Num (- 1)) (Num 63)]\<rparr>)"
    by (simp add: sample_defs)
  from t [THEN conjunct2, THEN conjunct2] o have "\<forall>r \<in> set (rows out).
         \<not> (r ''temperature_2m_max'' = Num 100 \<and> r ''temperature_2m_min'' = Num (34 / 10))"
    by blast
  with a o show ?thesis by blast
qed

theorem nullable_temperature_removed:
  "dtype_of nullable_temps ''temperature_2m_max'' = Some NullableIntT \<and>
   map (\<lambda>r. (r ''temperature_2m_max'', r ''temperature_2m_min'')) (rows nullable_temps) =
     [(NA, Num 3), (Num 7, Num 3)] \<and>
   map_sum id (\<lambda>out. map (\<lambda>r. (r ''temperature_2m_max'', r ''temperature_2m_min'')) (rows out))
     (validate_temperature nullable_temps) = Inr [(Num 7, Num 3)]"
  by (simp add: validate_temperature_def comparable_def temperature_kept temperature_rejected
      sample_defs frame_defs)

section \<open>Precipitation validation\<close>

lemma validate_precipitation_number:
  assumes "\<forall>c \<in> {''precipitation_sum'', ''rain_sum'', ''snowfall_sum''}.
             has_col df c \<longrightarrow>
             dtype_of df c = Some NumericT \<or> dtype_of df c = Some NullableIntT"
  shows "validate_precipitation df =
      Inr (df\<lparr>rows := filter (\<lambda>r. precipitation_mask df r = Some False) (rows df)\<rparr>)"
proof -
  from assms have "comparable_all df (existing_cols df) = Inr ()"
    by (intro comparable_all_number) (auto simp: existing_cols_iff)
  then show ?thesis by (simp add: validate_precipitation_def)
qed

lemma precipitation_kept_cols:
  "precipitation_mask df r = Some False \<longleftrightarrow>
     (\<forall>c \<in> {''precipitation_sum'', ''rain_sum'', ''snowfall_sum''}.
        has_col df c \<longrightarrow>
        \<not> (\<exists>x. r c = Num x \<and> x < 0) \<and> \<not> (dtype_of df c = Some NullableIntT \<and> r c = NA))"
  unfolding precipitation_kept by (auto simp: existing_cols_iff)

text \<open>
  C7, as the code has it. Take a frame whose columns \<open>precipitation_sum\<close>, \<open>rain_sum\<close>
  and \<open>snowfall_sum\<close>, as far as they are there, are float columns or nullable integer
  columns. \<open>validate_precipitation\<close> returns the frame with exactly the rows removed in
  which one of these three columns that the frame has holds a negative number, or is missing
  in a nullable integer column; the rows it keeps are kept as they are. On float columns,
  the columns \<open>cast_types\<close> makes, these are exactly the rows with a negative number in one
  of the three columns. No row of an output of \<open>transform\<close> holds a negative number in
  \<open>precipitation_sum\<close>, \<open>rain_sum\<close> or \<open>snowfall_sum\<close>.
\<close>

theorem validate_precipitation_exact:
  assumes "\<forall>c \<in> {''precipitation_sum'', ''rain_sum'', ''snowfall_sum''}.
             has_col df c \<longrightarrow>
             dtype_of df c = Some NumericT \<or> dtype_of df c = Some NullableIntT"
  shows "validate_precipitation df =
           Inr (df\<lparr>rows := filter (\<lambda>r.
                  \<forall>c \<in> {''precipitation_sum'', ''rain_sum'', ''snowfall_sum''}.
                    has_col df c \<longrightarrow>
                    \<not> (\<exists>x. r c = Num x \<and> x < 0) \<and>
                    \<not> (dtype_of df c = Some NullableIntT \<and> r c = NA)) (rows df)\<rparr>) \<and>
         ((\<forall>c \<in> {''precipitation_sum'', ''rain_sum'', ''snowfall_sum''}.
             has_col df c \<longrightarrow> dtype_of df c = Some NumericT) \<longrightarrow>
          validate_precipitation df =
            Inr (df\<lparr>rows := filter (\<lambda>r.
                   \<not> (\<exists>c \<in> {''precipitation_sum'', ''rain_sum'', ''snowfall_sum''}.
                        has_col df c \<and> (\<exists>x. r c = Num x \<and> x < 0))) (rows df)\<rparr>)) \<and>
         (\<forall>out. transform P raw strategy = Inr out \<longrightarrow>
            (\<forall>r \<in> set (rows out).
               \<forall>c \<in> {''precipitation_sum'', ''rain_sum'', ''snowfall_sum''}. \<forall>x.
                 has_col out c \<and> r c = Num x \<longrightarrow> 0 \<le> x))"
proof -
  note v = validate_precipitation_number [OF assms]
  have first: "validate_precipitation df =
           Inr (df\<lparr>rows := filter (\<lambda>r.
                  \<forall>c \<in> {''precipitation_sum'', ''rain_sum'', ''snowfall_sum''}.
                    has_col df c \<longrightarrow>
                    \<not> (\<exists>x. r c = Num x \<and> x < 0) \<and>
                    \<not> (dtype_of df c = Some NullableIntT \<and> r c = NA)) (rows df)\<rparr>)"
    using v by (simp only: precipitation_kept_cols)
  have float: "validate_precipitation df =
            Inr (df\<lparr>rows := filter (\<lambda>r.
                   \<not> (\<exists>c \<in> {''precipitation_sum'', ''rain_sum'', ''snowfall_sum''}.
                        has_col df c \<and> (\<exists>x. r c = Num x \<and> x < 0))) (rows df)\<rparr>)"
    if f: "\<forall>c \<in> {''precipitation_sum'', ''rain_sum'', ''snowfall_sum''}.
             has_col df c \<longrightarrow> dtype_of df c = Some NumericT"
  proof -
    have "(precipitation_mask df r = Some False) =
        (\<not> (\<exists>c \<in> {''precipitation_sum'', ''rain_sum'', ''snowfall_sum''}.
                        has_col df c \<and> (\<exists>x. r c = Num x \<and> x < 0)))" for r
      unfolding precipitation_kept_cols using f by auto
    with v show ?thesis by simp
  qed
  have second: "0 \<le> x"
    if t: "transform P raw strategy = Inr out" and r: "r \<in> set (rows out)"
      and c: "c \<in> {''precipitation_sum'', ''rain_sum'', ''snowfall_sum''}"
      and h: "has_col out c" and x: "r c = Num x"
    for out r c x
  proof -
    from t obtain df3 df4 df5 where
      s: "validate_temperature df3 = Inr df4" "validate_precipitation df4 = Inr df5"
         "add_computed_columns df5 = Inr out"
      by (rule transform_stages)
    from r add_computed_columns_rows [OF s(3)] obtain r0 where
      r0: "r0 \<in> set (rows df5)" "r = derive r0" by auto
    from c have ne: "c \<noteq> ''temp_range''" "c \<noteq> ''month''" "c \<noteq> ''day_of_week''"
      by auto
    with h add_computed_columns_has_col [OF s(3), of c] have h5: "has_col df5 c" by simp
    note w = validate_precipitation_rows [OF s(2)]
    from h5 w have h4: "has_col df4 c" by (simp add: has_col_def colnames_def)
    from r0(1) w have "precipitation_mask df4 r0 = Some False" by simp
    with c h4 have "\<not> (\<exists>x. r0 c = Num x \<and> x < 0)"
      unfolding precipitation_kept_cols by blast
    moreover from ne have "r c = r0 c" by (simp add: r0(2) derive_def)
    ultimately have "\<not> x < 0" using x by simp
    then show ?thesis by simp
  qed
  show ?thesis
  proof (intro conjI impI allI ballI)
    show "validate_precipitation df =
           Inr (df\<lparr>rows := filter (\<lambda>r.
                  \<forall>c \<in> {''precipitation_sum'', ''rain_sum'', ''snowfall_sum''}.
                    has_col df c \<longrightarrow>
                    \<not> (\<exists>x. r c = Num x \<and> x < 0) \<and>
                    \<not> (dtype_of df c = Some NullableIntT \<and> r c = NA)) (rows df)\<rparr>)"
      by (rule first)
  next
    assume "\<forall>c \<in> {''precipitation_sum'', ''rain_sum'', ''snowfall_sum''}.
             has_col df c \<longrightarrow> dtype_of df c = Some NumericT"
    then show "validate_precipitation df =
            Inr (df\<lparr>rows := filter (\<lambda>r.
                   \<not> (\<exists>c \<in> {''precipitation_sum'', ''rain_sum'', ''snowfall_sum''}.
                        has_col df c \<and> (\<exists>x. r c = Num x \<and> x < 0))) (rows df)\<rparr>)"
      by (rule float)
  next
    fix out r c x
    assume "transform P raw strategy = Inr out" "r \<in> set (rows out)"
      "c \<in> {''precipitation_sum'', ''rain_sum'', ''snowfall_sum''}"
      "has_col out c \<and> r c = Num x"
    then show "0 \<le> x" using second by blast
  qed
qed

theorem validate_precipitation_exact_witness:
  "validate_precipitation sample_precip =
     Inr (sample_precip\<lparr>rows := [precip_row (Num 1) (Num 1) (Num 0), precip_row NA NA NA]\<rparr>) \<and>
   (\<exists>out. transform sample_parsers sample_raw ''drop'' = Inr out \<and>
      (\<forall>r \<in> set (rows out).
         \<forall>c \<in> {''precipitation_sum'', ''rain_sum'', ''snowfall_sum''}. \<forall>x.
           has_col out c \<and> r c = Num x \<longrightarrow> 0 \<le> x))"
proof -
  have f: "\<forall>c \<in> {''precipitation_sum'', ''rain_sum'', ''snowfall_sum''}.
      has_col sample_precip c \<longrightarrow> dtype_of sample_precip c = Some NumericT"
    by (simp add: sample_defs frame_defs)
  then have h: "\<forall>c \<in> {''precipitation_sum'', ''rain_sum'', ''snowfall_sum''}.
      has_col sample_precip c \<longrightarrow>
      dtype_of sample_precip c = Some NumericT \<or> dtype_of sample_precip c = Some NullableIntT"
    by simp
  obtain out where o: "transform sample_parsers sample_raw ''drop'' = Inr out"
    using sample_transform by blast
  note t = validate_precipitation_exact [OF h, of sample_parsers sample_raw "''drop''"]
  from t [THEN conjunct2, THEN conjunct1] f have "validate_precipitation sample_precip =
            Inr (sample_precip\<lparr>rows := filter (\<lambda>r.
                   \<not> (\<exists>c \<in> {''precipitation_sum'', ''rain_sum'', ''snowfall_sum''}.
                        has_col sample_precip c \<and> (\<exists>x. r c = Num x \<and> x < 0)))
                   (rows sample_precip)\<rparr>)"
    by (rule mp)
  then have a: "validate_precipitation sample_precip =
     Inr (sample_precip\<lparr>rows := [precip_row (Num 1) (Num 1) (Num 0), precip_row NA NA NA]\<rparr>)"
    by (simp add: sample_defs frame_defs)
  from t [THEN conjunct2, THEN conjunct2] o have b: "\<forall>r \<in> set (rows out).
         \<forall>c \<in> {''precipitation_sum'', ''rain_sum'', ''snowfall_sum''}. \<forall>x.
           has_col out c \<and> r c = Num x \<longrightarrow> 0 \<le> x"
    by blast
  show ?thesis
  proof (intro conjI exI)
    show "validate_precipitation sample_precip =
     Inr (sample_precip\<lparr>rows := [precip_row (Num 1) (Num 1) (Num 0), precip_row NA NA NA]\<rparr>)"
      by (rule a)
    show "transform sample_parsers sample_raw ''drop'' = Inr out" by (rule o)
    show "\<forall>r \<in> set (rows out).
         \<forall>c \<in> {''precipitation_sum'', ''rain_sum'', ''snowfall_sum''}. \<forall>x.
           has_col out c \<and> r c = Num x \<longrightarrow> 0 \<le> x"
      by (rule b)
  qed
qed

theorem nullable_precipitation_removed:
  "dtype_of nullable_precip ''precipitation_sum'' = Some NullableIntT \<and>
   map (\<lambda>r. r ''precipitation_sum'') (rows nullable_precip) = [NA, Num 1] \<and>
   map_sum id (\<lambda>out. map (\<lambda>r. r ''precipitation_sum'') (rows out))
     (validate_precipitation nullable_precip) = Inr [Num 1]"
  by (simp add: validate_precipitation_def comparable_def existing_cols_def precip_cols_def
      precipitation_kept sample_defs frame_defs)

section \<open>Missing values in the validation steps\<close>

text \<open>
  C10, as the code has it. In a float column a missing value never rejects a row, in a
  nullable integer column it always does. On a frame whose checked columns are float columns
  or nullable integer columns, \<open>validate_temperature\<close> keeps a row exactly when neither
  temperature is a number outside the interval from -60 to 60 and neither is missing in a
  nullable integer column, and \<open>validate_precipitation\<close> keeps a row exactly when none of
  the columns \<open>precipitation_sum\<close>, \<open>rain_sum\<close>, \<open>snowfall_sum\<close> of the frame holds a
  negative number or is missing in a nullable integer column. So on float columns a row
  whose checked values are all missing is kept, and a row with one checked value missing is
  kept unless another checked value rejects it.
\<close>

theorem missing_value_never_rejects:
  assumes "dtype_of df ''temperature_2m_max'' = Some NumericT \<or>
           dtype_of df ''temperature_2m_max'' = Some NullableIntT"
    and "dtype_of df ''temperature_2m_min'' = Some NumericT \<or>
         dtype_of df ''temperature_2m_min'' = Some NullableIntT"
    and "has_col df ''city''" and "has_col df ''time''"
    and "\<forall>c \<in> {''precipitation_sum'', ''rain_sum'', ''snowfall_sum''}.
           has_col df c \<longrightarrow>
           dtype_of df c = Some NumericT \<or> dtype_of df c = Some NullableIntT"
  shows "(\<exists>out. validate_temperature df = Inr out \<and>
            (\<forall>r \<in> set (rows df).
               (r \<in> set (rows out) \<longleftrightarrow>
                  \<not> (\<exists>x. (r ''temperature_2m_max'' = Num x \<or> r ''temperature_2m_min'' = Num x) \<and>
                          x \<notin> {- 60..60}) \<and>
                  \<not> (dtype_of df ''temperature_2m_max'' = Some NullableIntT \<and>
                       r ''temperature_2m_max'' = NA) \<and>
                  \<not> (dtype_of df ''temperature_2m_min'' = Some NullableIntT \<and>
                       r ''temperature_2m_min'' = NA)) \<and>
               (dtype_of df ''temperature_2m_max'' = Some NumericT \<and>
                dtype_of df ''temperature_2m_min'' = Some NumericT \<and>
                r ''temperature_2m_max'' = NA \<and> r ''temperature_2m_min'' = NA \<longrightarrow>
                  r \<in> set (rows out)))) \<and>
         (\<exists>out. validate_precipitation df = Inr out \<and>
            (\<forall>r \<in> set (rows df).
               (r \<in> set (rows out) \<longleftrightarrow>
                  (\<forall>c \<in> {''precipitation_sum'', ''rain_sum'', ''snowfall_sum''}.
                     has_col df c \<longrightarrow>
                     \<not> (\<exists>x. r c = Num x \<and> x < 0) \<and>
                     \<not> (dtype_of df c = Some NullableIntT \<and> r c = NA))) \<and>
               ((\<forall>c \<in> {''precipitation_sum'', ''rain_sum'', ''snowfall_sum''}.
                   (has_col df c \<longrightarrow> dtype_of df c = Some NumericT) \<and> r c = NA) \<longrightarrow>
                  r \<in> set (rows out))))"
proof -
  have "\<exists>out. validate_temperature df = Inr out \<and>
            (\<forall>r \<in> set (rows df).
               (r \<in> set (rows out) \<longleftrightarrow>
                  \<not> (\<exists>x. (r ''temperature_2m_max'' = Num x \<or> r ''temperature_2m_min'' = Num x) \<and>
                          x \<notin> {- 60..60}) \<and>
                  \<not> (dtype_of df ''temperature_2m_max'' = Some NullableIntT \<and>
                       r ''temperature_2m_max'' = NA) \<and>
                  \<not> (dtype_of df ''temperature_2m_min'' = Some NullableIntT \<and>
                       r ''temperature_2m_min'' = NA)) \<and>
               (dtype_of df ''temperature_2m_max'' = Some NumericT \<and>
                dtype_of df ''temperature_2m_min'' = Some NumericT \<and>
                r ''temperature_2m_max'' = NA \<and> r ''temperature_2m_min'' = NA \<longrightarrow>
                  r \<in> set (rows out)))"
    unfolding validate_temperature_number [OF assms(1-4)]
    by (auto simp: temperature_kept)
  moreover have "\<exists>out. validate_precipitation df = Inr out \<and>
            (\<forall>r \<in> set (rows df).
               (r \<in> set (rows out) \<longleftrightarrow>
                  (\<forall>c \<in> {''precipitation_sum'', ''rain_sum'', ''snowfall_sum''}.
                     has_col df c \<longrightarrow>
                     \<not> (\<exists>x. r c = Num x \<and> x < 0) \<and>
                     \<not> (dtype_of df c = Some NullableIntT \<and> r c = NA))) \<and>
               ((\<forall>c \<in> {''precipitation_sum'', ''rain_sum'', ''snowfall_sum''}.
                   (has_col df c \<longrightarrow> dtype_of df c = Some NumericT) \<and> r c = NA) \<longrightarrow>
                  r \<in> set (rows out)))"
    unfolding validate_precipitation_number [OF assms(5)]
    by (simp add: precipitation_kept_cols)
  ultimately show ?thesis by (rule conjI)
qed

theorem missing_value_never_rejects_witness:
  "(\<exists>out. validate_temperature sample_gaps = Inr out \<and>
       (\<forall>r \<in> set (rows sample_gaps). r ''temperature_2m_max'' = NA \<and> r \<in> set (rows out))) \<and>
   (\<exists>out. validate_precipitation sample_gaps = Inr out \<and>
       (\<forall>r \<in> set (rows sample_gaps). r \<in> set (rows out)))"
proof -
  have h: "dtype_of sample_gaps ''temperature_2m_max'' = Some NumericT \<or>
      dtype_of sample_gaps ''temperature_2m_max'' = Some NullableIntT"
    "dtype_of sample_gaps ''temperature_2m_min'' = Some NumericT \<or>
      dtype_of sample_gaps ''temperature_2m_min'' = Some NullableIntT"
    "has_col sample_gaps ''city''" "has_col sample_gaps ''time''"
    "\<forall>c \<in> {''precipitation_sum'', ''rain_sum'', ''snowfall_sum''}.
       has_col sample_gaps c \<longrightarrow>
       dtype_of sample_gaps c = Some NumericT \<or> dtype_of sample_gaps c = Some NullableIntT"
    by (simp_all add: sample_defs frame_defs)
  have t: "\<forall>r \<in> set (rows sample_gaps). r ''temperature_2m_max'' = NA \<and>
      \<not> (\<exists>x. (r ''temperature_2m_max'' = Num x \<or> r ''temperature_2m_min'' = Num x) \<and>
                          x \<notin> {- 60..60}) \<and>
      \<not> (dtype_of sample_gaps ''temperature_2m_max'' = Some NullableIntT \<and>
           r ''temperature_2m_max'' = NA) \<and>
      \<not> (dtype_of sample_gaps ''temperature_2m_min'' = Some NullableIntT \<and>
           r ''temperature_2m_min'' = NA)"
    by (simp add: sample_defs frame_defs)
  have p: "\<forall>r \<in> set (rows sample_gaps).
      \<forall>c \<in> {''precipitation_sum'', ''rain_sum'', ''snowfall_sum''}.
         has_col sample_gaps c \<longrightarrow>
         \<not> (\<exists>x. r c = Num x \<and> x < 0) \<and>
         \<not> (dtype_of sample_gaps c = Some NullableIntT \<and> r c = NA)"
    by (simp add: sample_defs frame_defs)
  note m = missing_value_never_rejects [OF h]
  from m [THEN conjunct1] obtain o1 where o1: "validate_temperature sample_gaps = Inr o1"
    and k1: "\<forall>r \<in> set (rows sample_gaps).
               (r \<in> set (rows o1) \<longleftrightarrow>
                  \<not> (\<exists>x. (r ''temperature_2m_max'' = Num x \<or> r ''temperature_2m_min'' = Num x) \<and>
                          x \<notin> {- 60..60}) \<and>
                  \<not> (dtype_of sample_gaps ''temperature_2m_max'' = Some NullableIntT \<and>
                       r ''temperature_2m_max'' = NA) \<and>
                  \<not> (dtype_of sample_gaps ''temperature_2m_min'' = Some NullableIntT \<and>
                       r ''temperature_2m_min'' = NA)) \<and>
               (dtype_of sample_gaps ''temperature_2m_max'' = Some NumericT \<and>
                dtype_of sample_gaps ''temperature_2m_min'' = Some NumericT \<and>
                r ''temperature_2m_max'' = NA \<and> r ''temperature_2m_min'' = NA \<longrightarrow>
                  r \<in> set (rows o1))"
    by (elim exE conjE)
  from m [THEN conjunct2] obtain o2 where o2: "validate_precipitation sample_gaps = Inr o2"
    and k2: "\<forall>r \<in> set (rows sample_gaps).
               (r \<in> set (rows o2) \<longleftrightarrow>
                  (\<forall>c \<in> {''precipitation_sum'', ''rain_sum'', ''snowfall_sum''}.
                     has_col sample_gaps c \<longrightarrow>
                     \<not> (\<exists>x. r c = Num x \<and> x < 0) \<and>
                     \<not> (dtype_of sample_gaps c = Some NullableIntT \<and> r c = NA))) \<and>
               ((\<forall>c \<in> {''precipitation_sum'', ''rain_sum'', ''snowfall_sum''}.
                   (has_col sample_gaps c \<longrightarrow> dtype_of sample_gaps c = Some NumericT) \<and>
                   r c = NA) \<longrightarrow>
                  r \<in> set (rows o2))"
    by (elim exE conjE)
  have a: "\<forall>r \<in> set (rows sample_gaps). r ''temperature_2m_max'' = NA \<and> r \<in> set (rows o1)"
  proof
    fix r assume r: "r \<in> set (rows sample_gaps)"
    with t k1 show "r ''temperature_2m_max'' = NA \<and> r \<in> set (rows o1)" by blast
  qed
  have b: "\<forall>r \<in> set (rows sample_gaps). r \<in> set (rows o2)"
  proof
    fix r assume r: "r \<in> set (rows sample_gaps)"
    with p k2 show "r \<in> set (rows o2)" by blast
  qed
  from o1 a o2 b show ?thesis by blast
qed

theorem missing_max_rejected:
  "dtype_of missing_max ''temperature_2m_max'' = Some NumericT \<and>
   dtype_of missing_max ''temperature_2m_min'' = Some NumericT \<and>
   rows missing_max = [typed_row 4 ''berlin'' NA (Num 100) (Num 0) (Num 53)] \<and>
   typed_row 4 ''berlin'' NA (Num 100) (Num 0) (Num 53) ''temperature_2m_max'' = NA \<and>
   validate_temperature missing_max = Inr (missing_max\<lparr>rows := []\<rparr>)"
  by (simp add: sample_defs frame_defs validate_temperature_def comparable_def
      temperature_kept temperature_rejected)

section \<open>The strategy for missing values\<close>

text \<open>
  C1, as the code has it. With a strategy other than \<open>drop\<close>, \<open>fill_zero\<close> and \<open>fill_mean\<close>,
  \<open>handle_missing_values\<close> raises the ValueError for an unknown strategy on every frame that
  has a missing value in one of its columns, and returns no frame then; a frame without a
  missing value is returned as it is, whatever the strategy.
\<close>

theorem unknown_strategy:
  assumes "strategy \<noteq> ''drop''" and "strategy \<noteq> ''fill_zero''" and "strategy \<noteq> ''fill_mean''"
  shows "handle_missing_values df strategy =
           (if \<exists>r \<in> set (rows df). \<exists>c \<in> set (colnames df). r c = NA
            then Inl (UnknownStrategy strategy) else Inr df)"
  using assms by (simp add: handle_missing_values_def has_missing_def row_has_na_def)

theorem unknown_strategy_witness:
  "handle_missing_values sample_gaps ''median'' = Inl (UnknownStrategy ''median'')"
proof -
  have "\<exists>r \<in> set (rows sample_gaps). \<exists>c \<in> set (colnames sample_gaps). r c = NA"
    by (simp add: sample_defs frame_defs)
  with unknown_strategy [of "''median''" sample_gaps] show ?thesis by simp
qed

theorem unknown_strategy_accepted:
  "handle_missing_values sample_typed ''median'' = Inr sample_typed"
  by (simp add: handle_missing_values_def has_missing_def row_has_na_def sample_defs frame_defs)

section \<open>Derived columns\<close>

text \<open>
  C6. An output of \<open>transform\<close> has the columns \<open>temp_range\<close>, \<open>month\<close> and \<open>day_of_week\<close>,
  and in every row of it they are computed from the row's own temperatures and date:
  \<open>temp_range\<close> is \<open>temperature_2m_max\<close> minus \<open>temperature_2m_min\<close>, \<open>month\<close> is the month
  of the date and \<open>day_of_week\<close> the name of its weekday (each is missing where a value it
  is computed from is missing). What the input held in these columns does not enter.
\<close>

theorem derived_columns:
  assumes "transform P raw strategy = Inr out"
  shows "has_col out ''temp_range'' \<and> has_col out ''month'' \<and> has_col out ''day_of_week'' \<and>
         (\<forall>r \<in> set (rows out).
            r ''temp_range'' = cell_sub (r ''temperature_2m_max'') (r ''temperature_2m_min'') \<and>
            r ''month'' = month_of (r ''time'') \<and>
            r ''day_of_week'' = day_name_of (r ''time'') \<and>
            (\<forall>x y. r ''temperature_2m_max'' = Num x \<and> r ''temperature_2m_min'' = Num y \<longrightarrow>
                   r ''temp_range'' = Num (x - y)) \<and>
            (\<forall>d. r ''time'' = Dt d \<longrightarrow>
                   r ''month'' = Num (of_int (dt_month d)) \<and>
                   r ''day_of_week'' = Str (day_name d)))"
proof -
  from assms obtain df3 df4 df5 where
    s: "validate_temperature df3 = Inr df4" "validate_precipitation df4 = Inr df5"
       "add_computed_columns df5 = Inr out"
    by (rule transform_stages)
  have cols: "has_col out ''temp_range'' \<and> has_col out ''month'' \<and> has_col out ''day_of_week''"
    by (simp add: add_computed_columns_has_col [OF s(3)])
  have "r ''temp_range'' = cell_sub (r ''temperature_2m_max'') (r ''temperature_2m_min'') \<and>
            r ''month'' = month_of (r ''time'') \<and>
            r ''day_of_week'' = day_name_of (r ''time'') \<and>
            (\<forall>x y. r ''temperature_2m_max'' = Num x \<and> r ''temperature_2m_min'' = Num y \<longrightarrow>
                   r ''temp_range'' = Num (x - y)) \<and>
            (\<forall>d. r ''time'' = Dt d \<longrightarrow>
                   r ''month'' = Num (of_int (dt_month d)) \<and>
                   r ''day_of_week'' = Str (day_name d))"
    if "r \<in> set (rows out)" for r
  proof -
    from that add_computed_columns_rows [OF s(3)] obtain r0 where "r = derive r0" by auto
    then show ?thesis
      by (simp add: derive_def cell_sub_def month_of_def day_name_of_def)
  qed
  with cols show ?thesis by blast
qed

theorem derived_columns_witness:
  "\<exists>out. transform sample_parsers sample_raw ''drop'' = Inr out \<and>
     map (\<lambda>r. map r [''time'', ''temperature_2m_max'', ''temperature_2m_min'', ''precipitation_sum'',
                      ''temp_range'', ''month'', ''day_of_week'']) (rows out) =
       [[Dt (Date 2024 1 1), Num (73 / 10), Num (34 / 10), Num (19 / 10), Num (39 / 10), Num 1,
         Str ''Monday''],
        [Dt (Date 2024 1 4), Num 60, Num (- 60), Num 0, Num 120, Num 1, Str ''Thursday'']] \<and>
     has_col out ''temp_range'' \<and> has_col out ''month'' \<and> has_col out ''day_of_week'' \<and>
     (\<forall>r \<in> set (rows out).
        r ''temp_range'' = cell_sub (r ''temperature_2m_max'') (r ''temperature_2m_min'') \<and>
        r ''month'' = month_of (r ''time'') \<and> r ''day_of_week'' = day_name_of (r ''time''))"
proof -
  obtain out where o: "transform sample_parsers sample_raw ''drop'' = Inr out"
    and v: "map (\<lambda>r. map r [''time'', ''temperature_2m_max'', ''temperature_2m_min'', ''precipitation_sum'',
                      ''temp_range'', ''month'', ''day_of_week'']) (rows out) =
       [[Dt (Date 2024 1 1), Num (73 / 10), Num (34 / 10), Num (19 / 10), Num (39 / 10), Num 1,
         Str ''Monday''],
        [Dt (Date 2024 1 4), Num 60, Num (- 60), Num 0, Num 120, Num 1, Str ''Thursday'']]"
    using sample_transform by (elim exE conjE)
  note d = derived_columns [OF o]
  have "\<forall>r \<in> set (rows out).
        r ''temp_range'' = cell_sub (r ''temperature_2m_max'') (r ''temperature_2m_min'') \<and>
        r ''month'' = month_of (r ''time'') \<and> r ''day_of_week'' = day_name_of (r ''time'')"
    using d by blast
  moreover have "has_col out ''temp_range'' \<and> has_col out ''month'' \<and> has_col out ''day_of_week''"
    using d by blast
  ultimately show ?thesis using o v by (intro exI [of _ out]) (intro conjI; assumption?; simp)
qed

section \<open>Deduplication\<close>

lemma drop_duplicates_keys:
  "key_of ` set (drop_duplicates seen rs) = key_of ` set rs - set seen"
proof (induction rs arbitrary: seen)
  case Nil
  then show ?case by simp
next
  case (Cons r rs)
  show ?case
  proof (cases "key_of r \<in> set seen")
    case True
    then show ?thesis using Cons.IH [of seen] by auto
  next
    case False
    then show ?thesis using Cons.IH [of "key_of r # seen"] by auto
  qed
qed

lemma drop_duplicates_distinct: "distinct (map key_of (drop_duplicates seen rs))"
proof (induction rs arbitrary: seen)
  case Nil
  then show ?case by simp
next
  case (Cons r rs)
  have "key_of r \<notin> key_of ` set (drop_duplicates (key_of r # seen) rs)"
    unfolding drop_duplicates_keys by simp
  with Cons.IH show ?case by simp
qed

lemma drop_duplicates_find:
  "k \<notin> set seen \<Longrightarrow>
     find (\<lambda>r. key_of r = k) (drop_duplicates seen rs) = find (\<lambda>r. key_of r = k) rs"
  by (induction rs arbitrary: seen) auto

lemma drop_duplicates_subseq: "subseq (drop_duplicates seen rs) rs"
  by (induction rs arbitrary: seen) auto

lemma distinct_keys_count:
  "distinct (map f xs) \<Longrightarrow> x \<in> set xs \<Longrightarrow> length (filter (\<lambda>y. f y = f x) xs) = 1"
proof (induction xs)
  case Nil
  then show ?case by simp
next
  case (Cons a xs)
  show ?case
  proof (cases "f a = f x")
    case True
    with Cons.prems have "filter (\<lambda>y. f y = f x) xs = []"
      by (auto simp: filter_empty_conv image_iff)
    with True show ?thesis by simp
  next
    case False
    with Cons show ?thesis by auto
  qed
qed

lemma drop_duplicates_index:
  "drop_duplicates seen rs =
     map (\<lambda>i. rs ! i)
       (filter (\<lambda>i. key_of (rs ! i) \<notin> set seen \<and> (\<forall>j < i. key_of (rs ! j) \<noteq> key_of (rs ! i)))
          [0..<length rs])"
proof (induction rs arbitrary: seen)
  case Nil
  then show ?case by simp
next
  case (Cons r rs)
  have upt: "[0..<length (r # rs)] = 0 # map Suc [0..<length rs]"
    by (simp add: upt_conv_Cons map_Suc_upt del: upt_Suc)
  have all_Suc: "(\<forall>j < Suc i. P j) \<longleftrightarrow> P 0 \<and> (\<forall>j < i. P (Suc j))" for i and P :: "nat \<Rightarrow> bool"
    by (metis less_Suc_eq_0_disj)
  show ?case
  proof (cases "key_of r \<in> set seen")
    case True
    have "filter (\<lambda>i. key_of ((r # rs) ! i) \<notin> set seen \<and>
                   (\<forall>j < i. key_of ((r # rs) ! j) \<noteq> key_of ((r # rs) ! i)))
            (map Suc [0..<length rs]) =
          map Suc (filter (\<lambda>i. key_of (rs ! i) \<notin> set seen \<and>
                   (\<forall>j < i. key_of (rs ! j) \<noteq> key_of (rs ! i))) [0..<length rs])"
      using True by (auto simp: filter_map o_def all_Suc intro!: arg_cong [where f = "map Suc"] filter_cong)
    with True show ?thesis
      unfolding upt by (simp add: Cons.IH [of seen] o_def)
  next
    case False
    have "filter (\<lambda>i. key_of ((r # rs) ! i) \<notin> set seen \<and>
                   (\<forall>j < i. key_of ((r # rs) ! j) \<noteq> key_of ((r # rs) ! i)))
            (map Suc [0..<length rs]) =
          map Suc (filter (\<lambda>i. key_of (rs ! i) \<notin> set (key_of r # seen) \<and>
                   (\<forall>j < i. key_of (rs ! j) \<noteq> key_of (rs ! i))) [0..<length rs])"
      by (auto simp: filter_map o_def all_Suc intro!: arg_cong [where f = "map Suc"] filter_cong)
    with False show ?thesis
      unfolding upt by (simp add: Cons.IH [of "key_of r # seen"] o_def)
  qed
qed

lemma key_of_eq: "key_of r' = key_of r \<longleftrightarrow> r' ''city'' = r ''city'' \<and> r' ''time'' = r ''time''"
  by (simp add: key_of_def)

lemma remove_duplicates_rows:
  assumes "has_col df ''city''" and "has_col df ''time''"
  shows "remove_duplicates df = Inr (df\<lparr>rows := drop_duplicates [] (rows df)\<rparr>)"
proof (cases "rows df = []")
  case True
  then have "df\<lparr>rows := drop_duplicates [] (rows df)\<rparr> = df" by simp
  with True show ?thesis by (simp add: remove_duplicates_def)
next
  case False
  moreover from assms(1) have "columns df \<noteq> []" by (auto simp: has_col_def colnames_def)
  ultimately show ?thesis using assms by (simp add: remove_duplicates_def)
qed

text \<open>
  C4, as the code has it. On a frame with the columns \<open>city\<close> and \<open>time\<close>,
  \<open>remove_duplicates\<close> returns the frame with exactly the rows kept, in their order, for
  which no earlier row has the same value of \<open>city\<close> and the same value of \<open>time\<close>. For
  the city and time of every input row the output has one row, and it is the first input row
  with them: of two rows with the same city and time and different measurements the first
  one survives. The values are compared as they stand in the frame, and in \<open>transform\<close>
  the step runs before the dates are read: there the time is the string of the input.
\<close>

theorem remove_duplicates_keeps_first:
  assumes "has_col df ''city''" and "has_col df ''time''"
  shows "\<exists>out. remove_duplicates df = Inr out \<and> columns out = columns df \<and>
           rows out =
             map (\<lambda>i. rows df ! i)
               (filter (\<lambda>i. \<forall>j < i. \<not> ((rows df ! j) ''city'' = (rows df ! i) ''city'' \<and>
                                        (rows df ! j) ''time'' = (rows df ! i) ''time''))
                  [0..<length (rows df)]) \<and>
           (\<forall>r \<in> set (rows df).
              length (filter (\<lambda>r'. r' ''city'' = r ''city'' \<and> r' ''time'' = r ''time'')
                        (rows out)) = 1 \<and>
              find (\<lambda>r'. r' ''city'' = r ''city'' \<and> r' ''time'' = r ''time'') (rows out) =
                find (\<lambda>r'. r' ''city'' = r ''city'' \<and> r' ''time'' = r ''time'') (rows df))"
proof -
  let ?out = "df\<lparr>rows := drop_duplicates [] (rows df)\<rparr>"
  have r: "remove_duplicates df = Inr ?out"
    using assms by (rule remove_duplicates_rows)
  have "rows ?out =
             map (\<lambda>i. rows df ! i)
               (filter (\<lambda>i. \<forall>j < i. key_of (rows df ! j) \<noteq> key_of (rows df ! i))
                  [0..<length (rows df)])"
    using drop_duplicates_index [of "[]" "rows df"] by simp
  then have i: "rows ?out =
             map (\<lambda>i. rows df ! i)
               (filter (\<lambda>i. \<forall>j < i. \<not> ((rows df ! j) ''city'' = (rows df ! i) ''city'' \<and>
                                        (rows df ! j) ''time'' = (rows df ! i) ''time''))
                  [0..<length (rows df)])"
    by (simp only: key_of_eq)
  have k: "length (filter (\<lambda>r'. r' ''city'' = r ''city'' \<and> r' ''time'' = r ''time'')
                        (rows ?out)) = 1 \<and>
           find (\<lambda>r'. r' ''city'' = r ''city'' \<and> r' ''time'' = r ''time'') (rows ?out) =
             find (\<lambda>r'. r' ''city'' = r ''city'' \<and> r' ''time'' = r ''time'') (rows df)"
    if "r \<in> set (rows df)" for r
  proof -
    from that have "key_of r \<in> key_of ` set (drop_duplicates [] (rows df))"
      unfolding drop_duplicates_keys by simp
    then obtain r' where r': "r' \<in> set (drop_duplicates [] (rows df))" "key_of r' = key_of r"
      by auto
    from distinct_keys_count [OF drop_duplicates_distinct [of "[]" "rows df"] r'(1)] r'(2)
    have "length (filter (\<lambda>y. key_of y = key_of r) (drop_duplicates [] (rows df))) = 1"
      by simp
    moreover have "find (\<lambda>r'. key_of r' = key_of r) (drop_duplicates [] (rows df)) =
        find (\<lambda>r'. key_of r' = key_of r) (rows df)"
      by (simp add: drop_duplicates_find)
    ultimately have "length (filter (\<lambda>r'. key_of r' = key_of r) (rows ?out)) = 1 \<and>
           find (\<lambda>r'. key_of r' = key_of r) (rows ?out) =
             find (\<lambda>r'. key_of r' = key_of r) (rows df)"
      by simp
    then show ?thesis by (simp only: key_of_eq)
  qed
  have c: "columns ?out = columns df" by simp
  show ?thesis
  proof (intro exI conjI ballI)
    show "remove_duplicates df = Inr ?out" by (rule r)
    show "columns ?out = columns df" by (rule c)
    show "rows ?out =
             map (\<lambda>i. rows df ! i)
               (filter (\<lambda>i. \<forall>j < i. \<not> ((rows df ! j) ''city'' = (rows df ! i) ''city'' \<and>
                                        (rows df ! j) ''time'' = (rows df ! i) ''time''))
                  [0..<length (rows df)])"
      by (rule i)
  next
    fix r assume "r \<in> set (rows df)"
    from k [OF this]
    show "length (filter (\<lambda>r'. r' ''city'' = r ''city'' \<and> r' ''time'' = r ''time'')
                        (rows ?out)) = 1"
      by (rule conjunct1)
  next
    fix r assume "r \<in> set (rows df)"
    from k [OF this]
    show "find (\<lambda>r'. r' ''city'' = r ''city'' \<and> r' ''time'' = r ''time'') (rows ?out) =
             find (\<lambda>r'. r' ''city'' = r ''city'' \<and> r' ''time'' = r ''time'') (rows df)"
      by (rule conjunct2)
  qed
qed

lemma two_cities_remove_duplicates:
  "\<exists>out. remove_duplicates two_cities = Inr out \<and>
     map (\<lambda>r. (r ''city'', r ''time'', r ''temperature_2m_max'')) (rows out) =
       [(Str ''berlin'', Str ''2024-01-01'', Num (73 / 10)),
        (Str ''cologne'', Str ''2024-01-01'', Num 8)]"
  by (simp add: remove_duplicates_def sample_defs frame_defs key_of_def)

theorem remove_duplicates_keeps_first_witness:
  "\<exists>out. remove_duplicates two_cities = Inr out \<and>
     map (\<lambda>r. (r ''city'', r ''time'', r ''temperature_2m_max'')) (rows two_cities) =
       [(Str ''berlin'', Str ''2024-01-01'', Num (73 / 10)),
        (Str ''cologne'', Str ''2024-01-01'', Num 8),
        (Str ''berlin'', Str ''2024-01-01'', Num 9)] \<and>
     map (\<lambda>r. (r ''city'', r ''time'', r ''temperature_2m_max'')) (rows out) =
       [(Str ''berlin'', Str ''2024-01-01'', Num (73 / 10)),
        (Str ''cologne'', Str ''2024-01-01'', Num 8)] \<and>
     length (filter (\<lambda>r'. r' ''city'' = Str ''berlin'' \<and> r' ''time'' = Str ''2024-01-01'')
               (rows out)) = 1 \<and>
     length (filter (\<lambda>r'. r' ''city'' = Str ''cologne'' \<and> r' ''time'' = Str ''2024-01-01'')
               (rows out)) = 1"
proof -
  have h: "has_col two_cities ''city''" "has_col two_cities ''time''"
    by (simp_all add: sample_defs frame_defs)
  from remove_duplicates_keeps_first [OF h] obtain out where
    o: "remove_duplicates two_cities = Inr out"
    and k: "\<forall>r \<in> set (rows two_cities).
              length (filter (\<lambda>r'. r' ''city'' = r ''city'' \<and> r' ''time'' = r ''time'')
                        (rows out)) = 1 \<and>
              find (\<lambda>r'. r' ''city'' = r ''city'' \<and> r' ''time'' = r ''time'') (rows out) =
                find (\<lambda>r'. r' ''city'' = r ''city'' \<and> r' ''time'' = r ''time'') (rows two_cities)"
    by (elim exE conjE)
  have i: "map (\<lambda>r. (r ''city'', r ''time'', r ''temperature_2m_max'')) (rows two_cities) =
       [(Str ''berlin'', Str ''2024-01-01'', Num (73 / 10)),
        (Str ''cologne'', Str ''2024-01-01'', Num 8),
        (Str ''berlin'', Str ''2024-01-01'', Num 9)]"
    by (simp add: sample_defs)
  from two_cities_remove_duplicates o
  have v: "map (\<lambda>r. (r ''city'', r ''time'', r ''temperature_2m_max'')) (rows out) =
       [(Str ''berlin'', Str ''2024-01-01'', Num (73 / 10)),
        (Str ''cologne'', Str ''2024-01-01'', Num 8)]"
    by auto
  have b: "raw_row ''2024-01-01'' ''berlin'' (73 / 10) (34 / 10) (19 / 10) \<in> set (rows two_cities)"
    and c: "raw_row ''2024-01-01'' ''cologne'' 8 4 (21 / 10) \<in> set (rows two_cities)"
    by (simp_all add: two_cities_def)
  have kb: "raw_row ''2024-01-01'' ''berlin'' (73 / 10) (34 / 10) (19 / 10) ''city'' = Str ''berlin''"
    "raw_row ''2024-01-01'' ''berlin'' (73 / 10) (34 / 10) (19 / 10) ''time'' = Str ''2024-01-01''"
    "raw_row ''2024-01-01'' ''cologne'' 8 4 (21 / 10) ''city'' = Str ''cologne''"
    "raw_row ''2024-01-01'' ''cologne'' 8 4 (21 / 10) ''time'' = Str ''2024-01-01''"
    by (simp_all add: raw_row_def mk_row_def)
  from k b have "length (filter (\<lambda>r'.
        r' ''city'' = raw_row ''2024-01-01'' ''berlin'' (73 / 10) (34 / 10) (19 / 10) ''city'' \<and>
        r' ''time'' = raw_row ''2024-01-01'' ''berlin'' (73 / 10) (34 / 10) (19 / 10) ''time'')
      (rows out)) = 1"
    by blast
  then have cb: "length (filter (\<lambda>r'. r' ''city'' = Str ''berlin'' \<and> r' ''time'' = Str ''2024-01-01'')
               (rows out)) = 1"
    by (simp only: kb)
  from k c have "length (filter (\<lambda>r'.
        r' ''city'' = raw_row ''2024-01-01'' ''cologne'' 8 4 (21 / 10) ''city'' \<and>
        r' ''time'' = raw_row ''2024-01-01'' ''cologne'' 8 4 (21 / 10) ''time'')
      (rows out)) = 1"
    by blast
  then have cc: "length (filter (\<lambda>r'. r' ''city'' = Str ''cologne'' \<and> r' ''time'' = Str ''2024-01-01'')
               (rows out)) = 1"
    by (simp only: kb)
  show ?thesis
  proof (intro exI conjI)
    show "remove_duplicates two_cities = Inr out" by (rule o)
    show "map (\<lambda>r. (r ''city'', r ''time'', r ''temperature_2m_max'')) (rows two_cities) =
       [(Str ''berlin'', Str ''2024-01-01'', Num (73 / 10)),
        (Str ''cologne'', Str ''2024-01-01'', Num 8),
        (Str ''berlin'', Str ''2024-01-01'', Num 9)]" by (rule i)
    show "map (\<lambda>r. (r ''city'', r ''time'', r ''temperature_2m_max'')) (rows out) =
       [(Str ''berlin'', Str ''2024-01-01'', Num (73 / 10)),
        (Str ''cologne'', Str ''2024-01-01'', Num 8)]" by (rule v)
    show "length (filter (\<lambda>r'. r' ''city'' = Str ''berlin'' \<and> r' ''time'' = Str ''2024-01-01'')
               (rows out)) = 1" by (rule cb)
    show "length (filter (\<lambda>r'. r' ''city'' = Str ''cologne'' \<and> r' ''time'' = Str ''2024-01-01'')
               (rows out)) = 1" by (rule cc)
  qed
qed

theorem two_spellings_survive:
  "map_sum id (\<lambda>out. map (\<lambda>r. (r ''city'', r ''time'', r ''temperature_2m_max'')) (rows out))
     (remove_duplicates two_spellings) =
     Inr [(Str ''berlin'', Str ''2024-01-05'', Num 1), (Str ''berlin'', Str ''2024-1-5'', Num 2)] \<and>
   map_sum id (\<lambda>out. map (\<lambda>r. (r ''city'', r ''time'', r ''temperature_2m_max'')) (rows out))
     (transform sample_parsers two_spellings ''drop'') =
     Inr [(Str ''berlin'', Dt (Date 2024 1 5), Num 1), (Str ''berlin'', Dt (Date 2024 1 5), Num 2)]"
proof (intro conjI)
  show "map_sum id (\<lambda>out. map (\<lambda>r. (r ''city'', r ''time'', r ''temperature_2m_max'')) (rows out))
     (remove_duplicates two_spellings) =
     Inr [(Str ''berlin'', Str ''2024-01-05'', Num 1), (Str ''berlin'', Str ''2024-1-5'', Num 2)]"
    by (simp add: remove_duplicates_def sample_defs frame_defs key_of_def)
  show "map_sum id (\<lambda>out. map (\<lambda>r. (r ''city'', r ''time'', r ''temperature_2m_max'')) (rows out))
     (transform sample_parsers two_spellings ''drop'') =
     Inr [(Str ''berlin'', Dt (Date 2024 1 5), Num 1), (Str ''berlin'', Dt (Date 2024 1 5), Num 2)]"
    by (simp add: stage_defs sample_dates sample_defs frame_defs days_from_civil_def)
qed

section \<open>Filling with the column mean\<close>

lemma number_cols_iff:
  "c \<in> fst ` set (number_cols df) \<longleftrightarrow> (\<exists>t. (c, t) \<in> set (columns df) \<and> is_number t)"
  by (force simp: number_cols_def)

lemma fill_mean_accepted:
  assumes "\<forall>(c, t) \<in> set (columns df). t = NullableIntT \<longrightarrow> (\<forall>r \<in> set (rows df). r c \<noteq> NA)"
  shows "\<not> (\<exists>ct \<in> set (number_cols df). fill_refused df ct)"
  using assms by (auto simp: fill_refused_def number_cols_def)

text \<open>
  C5, as the code has it. Take a frame in which no nullable integer column has a missing
  value. Under \<open>fill_mean\<close>, \<open>handle_missing_values\<close> returns a frame with the same columns
  and as many rows, in which a missing value of a numeric column is replaced by the
  arithmetic mean of the non-missing values of that column, where the column has one;
  a numeric column with no value at all stays missing, and every other value is unchanged.
  For the column \<open>[1.0, missing, 3.0]\<close> the missing value becomes \<open>2.0\<close>.
\<close>

theorem fill_mean_replaces:
  assumes "\<forall>(c, t) \<in> set (columns df). t = NullableIntT \<longrightarrow> (\<forall>r \<in> set (rows df). r c \<noteq> NA)"
  shows "\<exists>out. handle_missing_values df ''fill_mean'' = Inr out \<and> columns out = columns df \<and>
           length (rows out) = length (rows df) \<and>
           (\<forall>i < length (rows df). \<forall>c.
              (rows out ! i) c =
                (if (rows df ! i) c = NA \<and> (\<exists>t. (c, t) \<in> set (columns df) \<and> is_number t)
                 then (if col_values c (rows df) = [] then NA
                       else Num (sum_list (col_values c (rows df)) /
                                 real (length (col_values c (rows df)))))
                 else (rows df ! i) c))"
proof (cases "has_missing df")
  case False
  then have "handle_missing_values df ''fill_mean'' = Inr df"
    by (simp add: handle_missing_values_def)
  moreover have "(rows df ! i) c \<noteq> NA"
    if "i < length (rows df)" "(c, t) \<in> set (columns df)" for i c t
  proof -
    from that(2) have "c \<in> set (colnames df)" by (force simp: colnames_def)
    with False that(1) show ?thesis
      by (auto simp: has_missing_def row_has_na_def)
  qed
  ultimately show ?thesis by auto
next
  case True
  let ?out = "df\<lparr>rows := map (\<lambda>r c.
             if c \<in> set (map fst (number_cols df)) \<and> r c = NA
             then (case col_mean df c of None \<Rightarrow> NA | Some m \<Rightarrow> Num m)
             else r c) (rows df)\<rparr>"
  from True fill_mean_accepted [OF assms]
  have "handle_missing_values df ''fill_mean'' = Inr ?out"
    by (simp add: handle_missing_values_def fill_mean_def)
  moreover have "(rows ?out ! i) c =
                (if (rows df ! i) c = NA \<and> (\<exists>t. (c, t) \<in> set (columns df) \<and> is_number t)
                 then (if col_values c (rows df) = [] then NA
                       else Num (sum_list (col_values c (rows df)) /
                                 real (length (col_values c (rows df)))))
                 else (rows df ! i) c)"
    if "i < length (rows df)" for i c
    using that by (simp add: number_cols_iff col_mean_def mean_def)
  ultimately show ?thesis by (intro exI [of _ ?out]) simp
qed

theorem fill_mean_replaces_witness:
  "\<exists>out. handle_missing_values column_a ''fill_mean'' = Inr out \<and>
     length (rows out) = 3 \<and>
     (rows out ! 0) ''a'' = Num 1 \<and> (rows out ! 1) ''a'' = Num 2 \<and> (rows out ! 2) ''a'' = Num 3"
proof -
  have h: "\<forall>(c, t) \<in> set (columns column_a). t = NullableIntT \<longrightarrow>
      (\<forall>r \<in> set (rows column_a). r c \<noteq> NA)"
    by (simp add: column_a_def)
  from fill_mean_replaces [OF h] obtain out where
    o: "handle_missing_values column_a ''fill_mean'' = Inr out"
    and l: "length (rows out) = length (rows column_a)"
    and v: "\<forall>i < length (rows column_a). \<forall>c.
              (rows out ! i) c =
                (if (rows column_a ! i) c = NA \<and> (\<exists>t. (c, t) \<in> set (columns column_a) \<and> is_number t)
                 then (if col_values c (rows column_a) = [] then NA
                       else Num (sum_list (col_values c (rows column_a)) /
                                 real (length (col_values c (rows column_a)))))
                 else (rows column_a ! i) c)"
    by (elim exE conjE)
  have cv: "col_values ''a'' (rows column_a) = [1, 3]"
    by (simp add: col_values_def column_a_def mk_row_def)
  have n: "length (rows column_a) = 3" by (simp add: column_a_def)
  have "(rows out ! 0) ''a'' = Num 1"
    using v [rule_format, of 0 "''a''"] by (simp add: n column_a_def mk_row_def)
  moreover have "(rows out ! 1) ''a'' = Num 2"
    using v [rule_format, of 1 "''a''"] by (simp add: n cv) (simp add: column_a_def mk_row_def is_number_def)
  moreover have "(rows out ! 2) ''a'' = Num 3"
    using v [rule_format, of 2 "''a''"] by (simp add: n column_a_def mk_row_def)
  ultimately show ?thesis using o l n by (intro exI [of _ out]) simp
qed

theorem fill_mean_leaves_missing:
  "map_sum id (\<lambda>out. map (\<lambda>r. r ''a'') (rows out))
     (handle_missing_values all_missing ''fill_mean'') = Inr [NA, NA]"
  by (simp add: handle_missing_values_def has_missing_def row_has_na_def colnames_def
      fill_mean_def fill_refused_def number_cols_def is_number_def col_mean_def mean_def
      col_values_def all_missing_def mk_row_def)

text \<open>
  A nullable integer column with a missing value and a mean that is no integer: the codes
  53, missing, 62 of \<open>sample_gaps\<close> have the mean 57.5, and the fill raises TypeError.
\<close>

lemma sample_gaps_refused:
  "handle_missing_values sample_gaps ''fill_mean'' = Inl TypeError"
  by (simp add: handle_missing_values_def has_missing_def row_has_na_def colnames_def
      fill_mean_def fill_refused_def number_cols_def is_number_def col_mean_def mean_def
      col_values_def is_integral_def sample_defs)

section \<open>Type casting\<close>
















lemma big_weather_code: "astype_Int64 (Num (10 ^ 19)) = Inl TypeError"
  by (simp add: astype_Int64_def int64_value_def)





section \<open>The upsert\<close>

lemma do_update_same_key: "wkey old = wkey new \<Longrightarrow> do_update old new = new"
  by (cases old, cases new) (simp add: do_update_def wkey_def)

lemma upsert_keys:
  "map wkey (upsert w t) =
     (if wkey w \<in> set (map wkey t) then map wkey t else map wkey t @ [wkey w])"
  by (induction t) (auto simp: do_update_same_key)

lemma upsert_member: "w \<in> set (upsert w t)"
  by (induction t) (auto simp: do_update_same_key)

lemma upsert_keeps: "w' \<in> set t \<Longrightarrow> wkey w' \<noteq> wkey w \<Longrightarrow> w' \<in> set (upsert w t)"
  by (induction t) auto

lemma upsert_present: "distinct (map wkey t) \<Longrightarrow> w \<in> set t \<Longrightarrow> upsert w t = t"
proof (induction t)
  case Nil
  then show ?case by simp
next
  case (Cons a t)
  show ?case
  proof (cases "a = w")
    case True
    then show ?thesis by (simp add: do_update_same_key)
  next
    case False
    with Cons.prems have "w \<in> set t" "wkey a \<noteq> wkey w" by auto
    with Cons show ?thesis by simp
  qed
qed

lemma upsert_distinct: "distinct (map wkey t) \<Longrightarrow> distinct (map wkey (upsert w t))"
  by (simp add: upsert_keys)

lemma fold_upsert_distinct:
  "distinct (map wkey t) \<Longrightarrow> distinct (map wkey (fold upsert ws t))"
  by (induction ws arbitrary: t) (simp_all add: upsert_distinct)

lemma fold_upsert_keeps:
  "w \<in> set t \<Longrightarrow> wkey w \<notin> wkey ` set ws \<Longrightarrow> w \<in> set (fold upsert ws t)"
  by (induction ws arbitrary: t) (auto simp: upsert_keeps)

lemma fold_upsert_member:
  "distinct (map wkey ws) \<Longrightarrow> w \<in> set ws \<Longrightarrow> w \<in> set (fold upsert ws t)"
proof (induction ws arbitrary: t)
  case Nil
  then show ?case by simp
next
  case (Cons a ws)
  show ?case
  proof (cases "w = a")
    case True
    with Cons.prems(1) have "wkey w \<notin> wkey ` set ws" by auto
    with True show ?thesis by (simp add: fold_upsert_keeps upsert_member)
  next
    case False
    with Cons show ?thesis by simp
  qed
qed

lemma fold_upsert_same_keys:
  "set (map wkey ws) \<subseteq> set (map wkey t) \<Longrightarrow> map wkey (fold upsert ws t) = map wkey t"
proof (induction ws arbitrary: t)
  case Nil
  then show ?case by simp
next
  case (Cons a ws)
  from Cons.prems have k: "map wkey (upsert a t) = map wkey t"
    by (simp add: upsert_keys)
  with Cons.prems have "set (map wkey ws) \<subseteq> set (map wkey (upsert a t))" by simp
  from Cons.IH [OF this] k show ?case by simp
qed

lemma upsert_key_set: "wkey ` set (upsert w t) = insert (wkey w) (wkey ` set t)"
proof -
  have "set (map wkey (upsert w t)) = insert (wkey w) (set (map wkey t))"
    unfolding upsert_keys by auto
  then show ?thesis by simp
qed

lemma fold_upsert_keys:
  "wkey ` set (fold upsert ws t) = wkey ` set t \<union> wkey ` set ws"
  by (induction ws arbitrary: t) (simp_all add: upsert_key_set)

lemma fold_upsert_present:
  "distinct (map wkey t) \<Longrightarrow> set ws \<subseteq> set t \<Longrightarrow> fold upsert ws t = t"
  by (induction ws) (simp_all add: upsert_present)

section \<open>Pages\<close>

lemma concat_paginate: "concat (paginate xs) = xs"
proof (induction xs rule: paginate.induct)
  case (1 xs)
  show ?case
  proof (cases "xs = []")
    case True
    then show ?thesis by (subst paginate.simps) simp
  next
    case False
    with 1 have "concat (paginate (drop page_size xs)) = drop page_size xs" by simp
    with False show ?thesis by (subst paginate.simps) simp
  qed
qed

lemma paginate_pages:
  "p \<in> set (paginate xs) \<Longrightarrow> \<exists>n. p = take page_size (drop n xs)"
proof (induction xs arbitrary: p rule: paginate.induct)
  case (1 xs)
  show ?case
  proof (cases "xs = []")
    case True
    with "1.prems" show ?thesis by (subst (asm) paginate.simps) simp
  next
    case False
    with "1.prems" have "p = take page_size xs \<or> p \<in> set (paginate (drop page_size xs))"
      by (subst (asm) paginate.simps) auto
    then show ?thesis
    proof
      assume "p = take page_size xs"
      then have "p = take page_size (drop 0 xs)" by simp
      then show ?thesis ..
    next
      assume "p \<in> set (paginate (drop page_size xs))"
      from "1.IH" [OF False this] obtain n where "p = take page_size (drop n (drop page_size xs))"
        by blast
      then have "p = take page_size (drop (n + page_size) xs)" by simp
      then show ?thesis ..
    qed
  qed
qed

lemma paginate_distinct:
  assumes "distinct (map f xs)" and "p \<in> set (paginate xs)"
  shows "distinct (map f p)"
proof -
  from paginate_pages [OF assms(2)] obtain n where "p = take page_size (drop n xs)" ..
  then have "map f p = take page_size (drop n (map f xs))" by (simp add: take_map drop_map)
  with assms(1) show ?thesis by simp
qed

lemma paginate_subset: "p \<in> set (paginate xs) \<Longrightarrow> set p \<subseteq> set xs"
proof -
  assume "p \<in> set (paginate xs)"
  from paginate_pages [OF this] obtain n where "p = take page_size (drop n xs)" ..
  then show ?thesis by (auto dest: in_set_takeD in_set_dropD)
qed

section \<open>A batch of statements\<close>

lemma execute_Inl: "execute env k page t = Inl e \<Longrightarrow> e = StorageError"
  by (auto simp: execute_def split: if_splits)

lemma execute_iff:
  "execute env k page t =
     (if page_fails env k page then Inl StorageError else Inr (fold upsert page t))"
  by (auto simp: execute_def page_fails_def)

lemma execute_values_Inr:
  "\<forall>i < length pages. \<not> page_fails env (k + i) (pages ! i) \<Longrightarrow>
     execute_values env k pages t = Inr (fold upsert (concat pages) t)"
proof (induction pages arbitrary: k t)
  case Nil
  then show ?case by simp
next
  case (Cons p pages)
  from Cons.prems have "\<not> page_fails env k p" by force
  moreover have "\<forall>i < length pages. \<not> page_fails env (Suc k + i) (pages ! i)"
  proof (intro allI impI)
    fix i assume "i < length pages"
    then have "Suc i < length (p # pages)" by simp
    from Cons.prems [rule_format, OF this] show "\<not> page_fails env (Suc k + i) (pages ! i)"
      by simp
  qed
  ultimately show ?case by (simp add: execute_iff Cons.IH)
qed

lemma execute_values_Inl:
  "i < length pages \<Longrightarrow> page_fails env (k + i) (pages ! i) \<Longrightarrow>
     execute_values env k pages t = Inl StorageError"
proof (induction pages arbitrary: k t i)
  case Nil
  then show ?case by simp
next
  case (Cons p pages)
  show ?case
  proof (cases "page_fails env k p")
    case True
    then show ?thesis by (simp add: execute_iff)
  next
    case False
    with Cons.prems obtain j where j: "i = Suc j" by (cases i) auto
    with Cons.prems have "j < length pages" "page_fails env (Suc k + j) (pages ! j)" by simp_all
    from Cons.IH [OF this] False show ?thesis by (simp add: execute_iff)
  qed
qed

section \<open>Load\<close>

lemma paginate_single: "xs \<noteq> [] \<Longrightarrow> length xs \<le> page_size \<Longrightarrow> paginate xs = [xs]"
  by (subst paginate.simps, subst paginate.simps) simp

lemma paginate_Nil: "paginate [] = []"
  by (subst paginate.simps) simp

lemma build_records_length: "build_records P df rs = Inr ws \<Longrightarrow> length ws = length rs"
  by (induction rs arbitrary: ws) (auto simp: bind_err_Inr_iff)

lemma adapt_plain:
  "col \<noteq> ''time'' \<Longrightarrow> col \<noteq> ''weather_code'' \<Longrightarrow> adapt P col v = Inr (sql_of v)"
  by (cases v) (simp_all add: adapt_def sql_of_def)

lemma build_record_loadable:
  assumes "\<forall>c \<in> set load_columns. has_col df c" and "loadable_row r"
  shows "build_record P df r = Inr (record_of r)"
proof -
  from assms(1) have f: "field P df r c = adapt P c (r c)" if "c \<in> set load_columns" for c
    using that by (simp add: field_def)
  have p: "field P df r c = Inr (sql_of (r c))"
    if "c \<in> set load_columns" "c \<noteq> ''time''" "c \<noteq> ''weather_code''" for c
    using that by (simp add: f adapt_plain)
  from assms(2) have t: "field P df r ''time'' = Inr (case r ''time'' of Dt d \<Rightarrow> SDate d | _ \<Rightarrow> SNull)"
    by (cases "r ''time''") (simp_all add: f load_columns_def adapt_def loadable_row_def)
  from assms(2) have w: "field P df r ''weather_code'' =
      Inr (case r ''weather_code'' of Num x \<Rightarrow> SNum (py_int x) | _ \<Rightarrow> SNull)"
    by (cases "r ''weather_code''") (simp_all add: f load_columns_def adapt_def loadable_row_def)
  show ?thesis
    unfolding build_record_def record_of_def
    by (simp add: p t w load_columns_def)
qed

lemma build_records_loadable:
  assumes "\<forall>c \<in> set load_columns. has_col df c" and "\<forall>r \<in> set rs. loadable_row r"
  shows "build_records P df rs = Inr (map record_of rs)"
  using assms(2) by (induction rs) (simp_all add: build_record_loadable [OF assms(1)])

lemma create_table_ok:
  "create_conn_ok env \<Longrightarrow> ddl_ok env \<Longrightarrow>
     create_table env db = (Inr (), Some (stored_rows db), [Connect, Execute, Commit, Close])"
  by (simp add: create_table_def stored_rows_def)

lemma create_table_rows: "create_table env db = (res, db1, tr) \<Longrightarrow> stored_rows db1 = stored_rows db"
  by (auto simp: create_table_def stored_rows_def split: if_splits option.splits)

lemma load_failure_keeps_rows:
  assumes "load P env df db = (Inl e, db1, tr)"
  shows "stored_rows db1 = stored_rows db"
proof -
  obtain res d0 tr0 where c: "create_table env db = (res, d0, tr0)"
    by (cases "create_table env db") auto
  from create_table_rows [OF c] have "stored_rows d0 = stored_rows db" .
  moreover from assms c have "db1 = d0"
    by (auto simp: load_def split: sum.splits if_splits)
  ultimately show ?thesis by simp
qed

text \<open>
  C9. Take a run of \<open>load\<close> that gets as far as the batch: the relation is ensured, the
  records are built and the connection opens. If the statement of some page fails, or the
  commit does, \<open>load\<close> rolls back, closes the connection and raises the storage error, and the
  store holds the rows it held before. If no statement and no commit fails, \<open>load\<close> commits
  the upsert of all records, closes the connection and returns the number of rows of the
  frame, which is the number of records. Whenever \<open>load\<close> raises, the stored rows are the
  rows of before.
\<close>

theorem load_commits_or_rolls_back:
  assumes "create_conn_ok env" and "ddl_ok env" and "load_conn_ok env"
    and "build_records P df (rows df) = Inr records"
  shows "((\<exists>i < length (paginate records). page_fails env i (paginate records ! i)) \<longrightarrow>
            load P env df db =
              (Inl StorageError, Some (stored_rows db),
               [Connect, Execute, Commit, Close] @ [Connect, Execute, Rollback, Close])) \<and>
         ((\<forall>i < length (paginate records). \<not> page_fails env i (paginate records ! i)) \<and>
          \<not> commit_ok env \<longrightarrow>
            load P env df db =
              (Inl StorageError, Some (stored_rows db),
               [Connect, Execute, Commit, Close] @ [Connect, Execute, Commit, Rollback, Close])) \<and>
         ((\<forall>i < length (paginate records). \<not> page_fails env i (paginate records ! i)) \<and>
          commit_ok env \<longrightarrow>
            load P env df db =
              (Inr (length (rows df)), Some (fold upsert records (stored_rows db)),
               [Connect, Execute, Commit, Close] @ [Connect, Execute, Commit, Close]) \<and>
            length records = length (rows df)) \<and>
         (\<forall>e db1 tr. load P env df db = (Inl e, db1, tr) \<longrightarrow> stored_rows db1 = stored_rows db)"
proof -
  note c = create_table_ok [OF assms(1,2), of db]
  have s: "stored_rows (Some (stored_rows db)) = stored_rows db"
    by (simp add: stored_rows_def)
  have a: "load P env df db =
              (Inl StorageError, Some (stored_rows db),
               [Connect, Execute, Commit, Close] @ [Connect, Execute, Rollback, Close])"
    if "\<exists>i < length (paginate records). page_fails env i (paginate records ! i)"
  proof -
    from that obtain i where "i < length (paginate records)"
      "page_fails env (0 + i) (paginate records ! i)" by auto
    then have "execute_values env 0 (paginate records) (stored_rows db) = Inl StorageError"
      by (rule execute_values_Inl)
    with c assms(3,4) show ?thesis by (simp add: load_def s)
  qed
  have ok: "execute_values env 0 (paginate records) (stored_rows db) =
      Inr (fold upsert records (stored_rows db))"
    if "\<forall>i < length (paginate records). \<not> page_fails env i (paginate records ! i)"
    using execute_values_Inr [of "paginate records" env 0 "stored_rows db"] that
    by (simp add: concat_paginate)
  have b: "load P env df db =
              (Inl StorageError, Some (stored_rows db),
               [Connect, Execute, Commit, Close] @ [Connect, Execute, Commit, Rollback, Close])"
    if "\<forall>i < length (paginate records). \<not> page_fails env i (paginate records ! i)"
      "\<not> commit_ok env"
    using ok [OF that(1)] that(2) c assms(3,4) by (simp add: load_def s)
  have d: "load P env df db =
              (Inr (length (rows df)), Some (fold upsert records (stored_rows db)),
               [Connect, Execute, Commit, Close] @ [Connect, Execute, Commit, Close])"
    if "\<forall>i < length (paginate records). \<not> page_fails env i (paginate records ! i)"
      "commit_ok env"
    using ok [OF that(1)] that(2) c assms(3,4) by (simp add: load_def s)
  have l: "length records = length (rows df)"
    using assms(4) by (rule build_records_length)
  have f: "\<forall>e db1 tr. load P env df db = (Inl e, db1, tr) \<longrightarrow> stored_rows db1 = stored_rows db"
    by (blast intro: load_failure_keeps_rows)
  show ?thesis
  proof (intro conjI impI)
    assume "\<exists>i < length (paginate records). page_fails env i (paginate records ! i)"
    then show "load P env df db =
              (Inl StorageError, Some (stored_rows db),
               [Connect, Execute, Commit, Close] @ [Connect, Execute, Rollback, Close])"
      by (rule a)
  next
    assume "(\<forall>i < length (paginate records). \<not> page_fails env i (paginate records ! i)) \<and>
          \<not> commit_ok env"
    then show "load P env df db =
              (Inl StorageError, Some (stored_rows db),
               [Connect, Execute, Commit, Close] @ [Connect, Execute, Commit, Rollback, Close])"
      using b by (elim conjE)
  next
    assume "(\<forall>i < length (paginate records). \<not> page_fails env i (paginate records ! i)) \<and>
          commit_ok env"
    then show "load P env df db =
              (Inr (length (rows df)), Some (fold upsert records (stored_rows db)),
               [Connect, Execute, Commit, Close] @ [Connect, Execute, Commit, Close])"
      using d by (elim conjE)
  next
    show "length records = length (rows df)" by (rule l)
  next
    show "\<forall>e db1 tr. load P env df db = (Inl e, db1, tr) \<longrightarrow> stored_rows db1 = stored_rows db"
      by (rule f)
  qed
qed

lemma sample_load_records:
  "build_records sample_parsers sample_load (rows sample_load) =
     Inr (map record_of (rows sample_load))"
  by (rule build_records_loadable)
    (simp_all add: load_columns_def loadable_row_def sample_defs frame_defs)

lemma sample_load_pages:
  "paginate (map record_of (rows sample_load)) = [map record_of (rows sample_load)]"
  by (rule paginate_single) (simp_all add: sample_load_def page_size_def)

theorem load_commits_or_rolls_back_witness:
  "load sample_parsers unreachable sample_load None =
     (Inl StorageError, Some [],
      [Connect, Execute, Commit, Close, Connect, Execute, Rollback, Close]) \<and>
   load sample_parsers reliable sample_load None =
     (Inr 3, Some (map record_of (rows sample_load)),
      [Connect, Execute, Commit, Close, Connect, Execute, Commit, Close])"
proof -
  have u: "create_conn_ok unreachable" "ddl_ok unreachable" "load_conn_ok unreachable"
    by (simp_all add: unreachable_def reliable_def)
  have r: "create_conn_ok reliable" "ddl_ok reliable" "load_conn_ok reliable"
    by (simp_all add: reliable_def)
  have "\<exists>i < length (paginate (map record_of (rows sample_load))).
      page_fails unreachable i (paginate (map record_of (rows sample_load)) ! i)"
    unfolding sample_load_pages by (simp add: page_fails_def unreachable_def)
  with load_commits_or_rolls_back [OF u sample_load_records, of None]
  have first: "load sample_parsers unreachable sample_load None =
     (Inl StorageError, Some [],
      [Connect, Execute, Commit, Close, Connect, Execute, Rollback, Close])"
    by (simp add: stored_rows_def)
  have nf: "\<forall>i < length (paginate (map record_of (rows sample_load))).
      \<not> page_fails reliable i (paginate (map record_of (rows sample_load)) ! i)"
    unfolding sample_load_pages
    by (simp add: page_fails_def reliable_def not_null_violation_def record_of_def wkey_def
        sql_of_def sample_defs)
  have "commit_ok reliable" by (simp add: reliable_def)
  with nf load_commits_or_rolls_back [OF r sample_load_records, of None]
  have "load sample_parsers reliable sample_load None =
       (Inr (length (rows sample_load)),
        Some (fold upsert (map record_of (rows sample_load)) (stored_rows None)),
        [Connect, Execute, Commit, Close] @ [Connect, Execute, Commit, Close])"
    by blast
  moreover have "fold upsert (map record_of (rows sample_load)) (stored_rows None) =
      map record_of (rows sample_load)"
    by (simp add: stored_rows_def record_of_def wkey_def sql_of_def sample_defs)
  moreover have "length (rows sample_load) = 3" by (simp add: sample_load_def)
  ultimately have second: "load sample_parsers reliable sample_load None =
     (Inr 3, Some (map record_of (rows sample_load)),
      [Connect, Execute, Commit, Close, Connect, Execute, Commit, Close])"
    by simp
  from first second show ?thesis ..
qed

section \<open>Loading twice\<close>

lemma wkey_record_of:
  "wkey (record_of r) =
     (sql_of (r ''city''), case r ''time'' of Dt d \<Rightarrow> SDate d | _ \<Rightarrow> SNull)"
  by (simp add: wkey_def record_of_def)

lemma wkey_record_of_key:
  "key_of r = key_of r' \<Longrightarrow> wkey (record_of r) = wkey (record_of r')"
  by (simp add: wkey_record_of key_of_def)

lemma wkey_record_of_inj:
  assumes "loadable_row r" and "loadable_row r'"
    and "wkey (record_of r) = wkey (record_of r')"
  shows "key_of r = key_of r'"
  using assms
  by (cases "r ''city''"; cases "r' ''city''"; cases "r ''time''"; cases "r' ''time''")
     (simp_all add: wkey_record_of key_of_def loadable_row_def sql_of_def)

lemma loadable_distinct_records:
  assumes "\<forall>r \<in> set rs. loadable_row r" and "distinct (map key_of rs)"
  shows "distinct (map wkey (map record_of rs))"
proof -
  have "inj_on (\<lambda>r. wkey (record_of r)) (set rs)"
  proof (rule inj_onI)
    fix r r' assume a: "r \<in> set rs" "r' \<in> set rs" "wkey (record_of r) = wkey (record_of r')"
    with assms(1) have "key_of r = key_of r'" by (intro wkey_record_of_inj) auto
    moreover from assms(2) have "inj_on key_of (set rs)" by (simp add: distinct_map)
    ultimately show "r = r'" using a(1,2) by (auto dest: inj_onD)
  qed
  moreover from assms(2) have "distinct rs" by (simp add: distinct_map)
  ultimately show ?thesis by (simp add: distinct_map o_def)
qed

lemma loadable_not_null: "loadable_row r \<Longrightarrow> \<not> not_null_violation (record_of r)"
  by (cases "r ''city''"; cases "r ''time''")
     (simp_all add: not_null_violation_def record_of_def loadable_row_def sql_of_def)

lemma load_accepted:
  assumes "loadable D" and "accepting env"
  shows "load P env D db =
           (Inr (length (rows D)), Some (fold upsert (map record_of (rows D)) (stored_rows db)),
            [Connect, Execute, Commit, Close] @ [Connect, Execute, Commit, Close])"
proof -
  let ?recs = "map record_of (rows D)"
  from assms(1) have b: "build_records P D (rows D) = Inr ?recs"
    by (intro build_records_loadable) (simp_all add: loadable_def)
  from assms(1) have dist: "distinct (map wkey ?recs)"
    by (intro loadable_distinct_records) (simp_all add: loadable_def)
  have "\<not> page_fails env i (paginate ?recs ! i)" if "i < length (paginate ?recs)" for i
  proof -
    let ?p = "paginate ?recs ! i"
    from that have p: "?p \<in> set (paginate ?recs)" by simp
    from paginate_subset [OF p] assms(1) have "\<forall>w \<in> set ?p. \<not> not_null_violation w"
      by (auto simp: loadable_def loadable_not_null)
    moreover from paginate_distinct [OF dist p] have "distinct (map wkey ?p)" .
    moreover from assms(2) have "stmt_ok env i ?p" by (simp add: accepting_def)
    ultimately show ?thesis by (simp add: page_fails_def)
  qed
  then have "\<forall>i < length (paginate ?recs). \<not> page_fails env (0 + i) (paginate ?recs ! i)"
    by simp
  from execute_values_Inr [OF this]
  have e: "execute_values env 0 (paginate ?recs) (stored_rows db) =
      Inr (fold upsert ?recs (stored_rows db))"
    by (simp add: concat_paginate)
  from assms(2) have c: "create_table env db =
      (Inr (), Some (stored_rows db), [Connect, Execute, Commit, Close])"
    by (intro create_table_ok) (simp_all add: accepting_def)
  have s: "stored_rows (Some (stored_rows db)) = stored_rows db"
    by (simp add: stored_rows_def)
  from assms(2) have "load_conn_ok env" "commit_ok env" by (simp_all add: accepting_def)
  with b c e show ?thesis by (simp add: load_def s)
qed

text \<open>
  C2. Take a dataset ready for load, a server that takes every statement, and a store that
  keeps its uniqueness constraint. Loading the dataset and then loading a dataset with the
  same keys (the same dataset, or one with other measurements) succeeds both times; the
  second load leaves the number of stored rows and the stored keys as the first load left
  them, every key is still stored once, and the row stored for each key of the second
  dataset is the record of the second load. When the second dataset is the first, the
  store after the second load is the store after the first.
\<close>

theorem load_twice:
  assumes "loadable D" and "loadable D'"
    and "key_of ` set (rows D') = key_of ` set (rows D)"
    and "accepting env" and "accepting env'"
    and "unique_keys db"
  shows "\<exists>db1 db2 tr1 tr2.
           load P env D db = (Inr (length (rows D)), db1, tr1) \<and>
           load P env' D' db1 = (Inr (length (rows D')), db2, tr2) \<and>
           length (stored_rows db2) = length (stored_rows db1) \<and>
           map wkey (stored_rows db2) = map wkey (stored_rows db1) \<and>
           unique_keys db2 \<and>
           (\<forall>r \<in> set (rows D'). record_of r \<in> set (stored_rows db2)) \<and>
           (\<forall>e. get_row_count e db2 = get_row_count e db1) \<and>
           (D' = D \<longrightarrow> db2 = db1)"
proof -
  let ?recs = "map record_of (rows D)" and ?recs' = "map record_of (rows D')"
  let ?t1 = "fold upsert ?recs (stored_rows db)"
  let ?t2 = "fold upsert ?recs' ?t1"
  let ?tr = "[Connect, Execute, Commit, Close] @ [Connect, Execute, Commit, Close]"
  have s: "stored_rows (Some t) = t" for t by (simp add: stored_rows_def)
  have l1: "load P env D db = (Inr (length (rows D)), Some ?t1, ?tr)"
    using assms(1,4) by (rule load_accepted)
  have l2: "load P env' D' (Some ?t1) = (Inr (length (rows D')), Some ?t2, ?tr)"
    using load_accepted [OF assms(2,5), of P "Some ?t1"] by (simp add: s)
  from assms(6) have u1: "distinct (map wkey ?t1)"
    by (simp add: unique_keys_def fold_upsert_distinct)
  then have u2: "distinct (map wkey ?t2)" by (rule fold_upsert_distinct)
  have "wkey ` set ?recs' = (\<lambda>r. wkey (record_of r)) ` set (rows D')" by (simp add: image_image)
  also have "\<dots> = (\<lambda>k. (sql_of (fst k), case snd k of Dt d \<Rightarrow> SDate d | _ \<Rightarrow> SNull)) `
      key_of ` set (rows D')"
    by (simp add: image_image wkey_record_of key_of_def)
  also have "\<dots> = (\<lambda>k. (sql_of (fst k), case snd k of Dt d \<Rightarrow> SDate d | _ \<Rightarrow> SNull)) `
      key_of ` set (rows D)"
    by (simp only: assms(3))
  also have "\<dots> = wkey ` set ?recs"
    by (simp add: image_image wkey_record_of key_of_def)
  finally have "wkey ` set ?recs' \<subseteq> wkey ` set ?t1"
    by (simp add: fold_upsert_keys)
  then have "set (map wkey ?recs') \<subseteq> set (map wkey ?t1)" by (simp add: image_image)
  then have k: "map wkey ?t2 = map wkey ?t1" by (rule fold_upsert_same_keys)
  then have n: "length ?t2 = length ?t1" by (metis length_map)
  from assms(2) have d': "distinct (map wkey ?recs')"
    by (intro loadable_distinct_records) (simp_all add: loadable_def)
  have m: "\<forall>r \<in> set (rows D'). record_of r \<in> set ?t2"
    using fold_upsert_member [OF d'] by simp
  have c: "get_row_count e (Some ?t2) = get_row_count e (Some ?t1)" for e
    by (simp add: get_row_count_def n)
  have i: "Some ?t2 = Some ?t1" if "D' = D"
  proof -
    from assms(1) have "distinct (map wkey ?recs)"
      by (intro loadable_distinct_records) (simp_all add: loadable_def)
    then have "set ?recs \<subseteq> set ?t1" by (auto intro: fold_upsert_member)
    with u1 have "fold upsert ?recs ?t1 = ?t1" by (rule fold_upsert_present)
    with that show ?thesis by simp
  qed
  show ?thesis
  proof (intro exI conjI)
    show "load P env D db = (Inr (length (rows D)), Some ?t1, ?tr)" by (rule l1)
    show "load P env' D' (Some ?t1) = (Inr (length (rows D')), Some ?t2, ?tr)" by (rule l2)
    show "length (stored_rows (Some ?t2)) = length (stored_rows (Some ?t1))" by (simp add: s n)
    show "map wkey (stored_rows (Some ?t2)) = map wkey (stored_rows (Some ?t1))"
      by (simp add: s k)
    show "unique_keys (Some ?t2)" using u2 by (simp add: unique_keys_def s)
    show "\<forall>r \<in> set (rows D'). record_of r \<in> set (stored_rows (Some ?t2))"
      using m by (simp add: s)
    show "\<forall>e. get_row_count e (Some ?t2) = get_row_count e (Some ?t1)" using c by blast
    show "D' = D \<longrightarrow> Some ?t2 = Some ?t1" using i by blast
  qed
qed

lemma sample_loadable: "loadable sample_load" "loadable sample_reload"
  by (simp_all add: loadable_def load_columns_def loadable_row_def key_of_def
      sample_defs frame_defs)

lemma sample_same_keys:
  "key_of ` set (rows sample_reload) = key_of ` set (rows sample_load)"
  by (simp add: key_of_def sample_defs)

theorem load_twice_witness:
  "\<exists>db1 db2 tr1 tr2.
     load sample_parsers reliable sample_load None = (Inr 3, db1, tr1) \<and>
     load sample_parsers reliable sample_reload db1 = (Inr 3, db2, tr2) \<and>
     length (stored_rows db2) = length (stored_rows db1) \<and>
     record_of (loaded_row ''berlin'' 1 99 (34 / 10) ''Monday'') \<in> set (stored_rows db2)"
proof -
  have a: "accepting reliable" by (simp add: accepting_def reliable_def)
  have u: "unique_keys None" by (simp add: unique_keys_def stored_rows_def)
  from load_twice [OF sample_loadable sample_same_keys a a u, of sample_parsers]
  obtain db1 db2 tr1 tr2 where
    l1: "load sample_parsers reliable sample_load None = (Inr (length (rows sample_load)), db1, tr1)"
    and l2: "load sample_parsers reliable sample_reload db1 =
      (Inr (length (rows sample_reload)), db2, tr2)"
    and n: "length (stored_rows db2) = length (stored_rows db1)"
    and m: "\<forall>r \<in> set (rows sample_reload). record_of r \<in> set (stored_rows db2)"
    by (elim exE conjE)
  have "length (rows sample_load) = 3" "length (rows sample_reload) = 3"
    by (simp_all add: sample_load_def sample_reload_def)
  with l1 l2 have l1': "load sample_parsers reliable sample_load None = (Inr 3, db1, tr1)"
    and l2': "load sample_parsers reliable sample_reload db1 = (Inr 3, db2, tr2)"
    by simp_all
  have "loaded_row ''berlin'' 1 99 (34 / 10) ''Monday'' \<in> set (rows sample_reload)"
    by (simp add: sample_reload_def)
  with m have r: "record_of (loaded_row ''berlin'' 1 99 (34 / 10) ''Monday'') \<in> set (stored_rows db2)"
    by blast
  show ?thesis
  proof (intro exI conjI)
    show "load sample_parsers reliable sample_load None = (Inr 3, db1, tr1)" by (rule l1')
    show "load sample_parsers reliable sample_reload db1 = (Inr 3, db2, tr2)" by (rule l2')
    show "length (stored_rows db2) = length (stored_rows db1)" by (rule n)
    show "record_of (loaded_row ''berlin'' 1 99 (34 / 10) ''Monday'') \<in> set (stored_rows db2)"
      by (rule r)
  qed
qed

end
